theory Spec2Isabelle
  imports Main
begin

section \<open>JavaScript values and string helpers\<close>

text \<open>
  The plugin (\<^verbatim>\<open>src/index.js\<close>, class \<^verbatim>\<open>Offline\<close>) is embedded function by function.
  Strings are \<^typ>\<open>string\<close>; the Greek letter in two of the plugin's messages is written as
  its two UTF-8 bytes. Objects are property lists in the order the properties were created.
\<close>

definition startsWith :: "string \<Rightarrow> string \<Rightarrow> bool" where
  "startsWith s p = (take (length p) s = p)"

definition endsWith :: "string \<Rightarrow> string \<Rightarrow> bool" where
  "endsWith s p = (length p \<le> length s \<and> drop (length s - length p) s = p)"

text \<open>
  A value that the plugin catches or receives as the \<^verbatim>\<open>err\<close> argument: an object created
  by an error constructor (constructor name, \<^verbatim>\<open>message\<close>, \<^verbatim>\<open>stack\<close>), or a plain string
  (as in \<^verbatim>\<open>context.fail('Not Found')\<close>).
\<close>

datatype thrown =
    ErrorObject string string "string option"
  | StringValue string


definition quote :: string where
  "quote = [CHR 0x27]"

definition dquote :: string where
  "dquote = [CHR 0x22]"

text \<open>The two UTF-8 bytes of the Greek small letter lambda.\<close>

definition lambda_sign :: string where
  "lambda_sign = [CHR 0xCE, CHR 0xBB]"

text \<open>\<^verbatim>\<open>s.split(c)\<close> for a one-character separator, and \<^verbatim>\<open>xs.join(sep)\<close> on strings.\<close>

fun split_on :: "char \<Rightarrow> string \<Rightarrow> string list" where
  "split_on c [] = [[]]"
| "split_on c (x # xs) =
     (if x = c then [] # split_on c xs
      else (case split_on c xs of [] \<Rightarrow> [[x]] | w # ws \<Rightarrow> (x # w) # ws))"

fun join :: "string \<Rightarrow> string list \<Rightarrow> string" where
  "join sep [] = []"
| "join sep [x] = x"
| "join sep (x # y # ys) = x @ sep @ join sep (y # ys)"

text \<open>\<^verbatim>\<open>xs[i]\<close> is truthy: the index exists and the string there is not empty.\<close>

definition truthy_at :: "string list \<Rightarrow> nat \<Rightarrow> bool" where
  "truthy_at xs i = (i < length xs \<and> xs ! i \<noteq> [])"

text \<open>Decimal text of a non-negative integer, as a template literal prints it.\<close>

function show_nat :: "nat \<Rightarrow> string" where
  "show_nat n =
     (if n < 10 then [''0123456789'' ! n]
      else show_nat (n div 10) @ [''0123456789'' ! (n mod 10)])"
  by pat_completeness auto
termination
  by (relation "measure id") auto

declare show_nat.simps [simp del]

definition show_int :: "int \<Rightarrow> string" where
  "show_int i = (if i < 0 then ''-'' @ show_nat (nat (- i)) else show_nat (nat i))"

text \<open>
  JSON-like values: handler results, response bodies. Numbers are restricted to integers.
\<close>

datatype json =
    JUndefined
  | JNull
  | JBool bool
  | JNum int
  | JStr string
  | JArr "json list"
  | JObj "(string \<times> json) list"

text \<open>
  \<^verbatim>\<open>v.toString()\<close>. Array elements are joined with commas, \<^verbatim>\<open>null\<close> and \<^verbatim>\<open>undefined\<close>
  elements print as nothing; on \<^verbatim>\<open>null\<close> or \<^verbatim>\<open>undefined\<close> itself the method call raises
  a TypeError (\<open>toString_of\<close>).
\<close>

fun toString_text :: "json \<Rightarrow> string" where
  "toString_text JUndefined = []"
| "toString_text JNull = []"
| "toString_text (JBool b) = (if b then ''true'' else ''false'')"
| "toString_text (JNum i) = show_int i"
| "toString_text (JStr s) = s"
| "toString_text (JArr xs) = join '','' (map toString_text xs)"
| "toString_text (JObj ps) = ''[object Object]''"

definition toString_of :: "string \<Rightarrow> json \<Rightarrow> thrown + string" where
  "toString_of engine_stack v =
     (if v = JUndefined \<or> v = JNull
      then Inl (ErrorObject ''TypeError''
                  (''Cannot read property '' @ quote @ ''toString'' @ quote @ '' of ''
                     @ (if v = JNull then ''null'' else ''undefined''))
                  (Some engine_stack))
      else Inr (toString_text v))"

subsection \<open>Property order of objects\<close>

text \<open>
  \<^verbatim>\<open>for (key in obj)\<close> and \<^verbatim>\<open>Object.keys(obj)\<close> list the own properties of a plain object
  with the array-index names first, in ascending numeric order, and then the other names
  in the order they were created. An array index is the canonical decimal text of an
  integer below \<open>2^32 - 1\<close>. Property names of one object are distinct.
\<close>

definition is_digit :: "char \<Rightarrow> bool" where
  "is_digit c = (c \<in> set ''0123456789'')"

definition digit_value :: "char \<Rightarrow> nat" where
  "digit_value c = length (takeWhile (\<lambda>d. d \<noteq> c) ''0123456789'')"

definition parse_nat :: "string \<Rightarrow> nat" where
  "parse_nat s = foldl (\<lambda>n c. 10 * n + digit_value c) 0 s"

definition is_array_index :: "string \<Rightarrow> bool" where
  "is_array_index s =
     (s \<noteq> [] \<and> list_all is_digit s \<and> (s = ''0'' \<or> hd s \<noteq> CHR ''0'')
      \<and> parse_nat s < 4294967295)"

definition js_entries :: "(string \<times> 'a) list \<Rightarrow> (string \<times> 'a) list" where
  "js_entries ps =
     sort_key (\<lambda>p. parse_nat (fst p)) (filter (\<lambda>p. is_array_index (fst p)) ps)
       @ filter (\<lambda>p. \<not> is_array_index (fst p)) ps"

text \<open>\<^verbatim>\<open>obj[name]\<close>: the property, or \<^verbatim>\<open>undefined\<close> (\<open>None\<close>).\<close>

definition get_prop :: "(string \<times> 'a) list \<Rightarrow> string \<Rightarrow> 'a option" where
  "get_prop ps name = map_of ps name"

section \<open>Option defaults and route paths\<close>

text \<open>
  \<^verbatim>\<open>_setOptions\<close>: \<^verbatim>\<open>prefix: this.options.prefix || '/'\<close>, then the prefix is made to start
  and to end with a slash.
\<close>

definition setOptions_prefix :: "string option \<Rightarrow> string" where
  "setOptions_prefix opt =
     (let p0 = (case opt of None \<Rightarrow> ''/'' | Some s \<Rightarrow> if s = [] then ''/'' else s);
          p1 = (if startsWith p0 ''/'' then p0 else ''/'' @ p0);
          p2 = (if endsWith p1 ''/'' then p1 else p1 @ ''/'')
      in p2)"

text \<open>
  \<^verbatim>\<open>_createRoutes\<close>, lines 288 to 290. The identifier \<^verbatim>\<open>path\<close> in \<^verbatim>\<open>path.slice(0, -1)\<close> is
  the module bound by \<^verbatim>\<open>const path = require('path')\<close>, which has no \<^verbatim>\<open>slice\<close> property, so
  the call raises a TypeError (\<open>engine_stack\<close> is the stack text the engine attaches).
\<close>

definition untrimmed_fullPath :: "string \<Rightarrow> string \<Rightarrow> string" where
  "untrimmed_fullPath prefix epath =
     prefix @ (if startsWith epath ''/'' then drop 1 epath else epath)"

definition path_slice_error :: "string \<Rightarrow> thrown" where
  "path_slice_error engine_stack =
     ErrorObject ''TypeError'' ''path.slice is not a function'' (Some engine_stack)"

definition route_fullPath :: "string \<Rightarrow> string \<Rightarrow> string \<Rightarrow> thrown + string" where
  "route_fullPath engine_stack prefix epath =
     (let fullPath = untrimmed_fullPath prefix epath
      in if fullPath \<noteq> ''/'' \<and> endsWith fullPath ''/''
         then Inl (path_slice_error engine_stack)
         else Inr fullPath)"

text \<open>
  One \<^verbatim>\<open>http\<close> event of a function, and the routes registered so far as (method, path)
  pairs. \<^verbatim>\<open>fun.events.forEach\<close> stops at the first exception, which leaves
  \<^verbatim>\<open>_createRoutes\<close>. The authorizer block (lines 294 to 350) runs after the path is
  computed and is not part of this model; the method is kept as configured.
\<close>

record http_event =
  ev_method :: string
  ev_path :: string

fun createRoutes ::
  "string \<Rightarrow> string \<Rightarrow> http_event list \<Rightarrow> (string \<times> string) list
   \<Rightarrow> thrown + (string \<times> string) list" where
  "createRoutes engine_stack prefix [] table = Inr table"
| "createRoutes engine_stack prefix (e # es) table =
     (case route_fullPath engine_stack prefix (ev_path e) of
        Inl err \<Rightarrow> Inl err
      | Inr fullPath \<Rightarrow>
          createRoutes engine_stack prefix es (table @ [(ev_method e, fullPath)]))"

section \<open>Configuration and collaborators\<close>

text \<open>
  One entry of \<^verbatim>\<open>endpoint.responses\<close>. An absent property is \<open>None\<close>; the maps are
  property lists; the status code is a number.
\<close>

record response_rule =
  statusCode :: "nat option"
  selectionPattern :: "string option"
  responseParameters :: "(string \<times> string) list option"
  responseTemplates :: "(string \<times> string) list option"

text \<open>
  What the route handler's closure holds: the function's name, \<^verbatim>\<open>funOptions.funTimeout\<close>
  in milliseconds, the http method, and \<^verbatim>\<open>endpoint.responses\<close>.
\<close>

record endpoint =
  funName :: string
  funTimeout :: nat
  http_method :: string
  responses :: "(string \<times> response_rule) list option"

text \<open>The fields of the Hapi request that the handler reads.\<close>

record request =
  req_path :: string
  req_mime :: "string option"

text \<open>
  The collaborators that are not in \<^verbatim>\<open>src/index.js\<close>, as parameters:
  \<^item> \<open>regexp_match p s\<close>: \<^verbatim>\<open>s.match(p)\<close> is not null, for the regular expression with
    source text \<open>p\<close>;
  \<^item> \<open>jsonPath\<close>: the module \<^verbatim>\<open>./jsonPath\<close>;
  \<^item> \<open>render_response rq t v\<close>: \<^verbatim>\<open>renderVelocityTemplateObject({ root: t },
    createVelocityContext(rq, ..., v)).root\<close>, or the exception it raises;
  \<^item> \<open>stringify\<close>: the text of \<^verbatim>\<open>JSON.stringify(result)\<close> in a template literal;
  \<^item> \<open>engine_stack\<close>: the \<^verbatim>\<open>stack\<close> text of an error raised by the engine itself;
  \<^item> \<open>noTimeout\<close> and \<open>serviceRuntime\<close>: \<^verbatim>\<open>this.options.noTimeout\<close> and
    \<^verbatim>\<open>this.service.provider.runtime\<close>.
\<close>

record env =
  regexp_match :: "string \<Rightarrow> string \<Rightarrow> bool"
  jsonPath :: "json \<Rightarrow> string \<Rightarrow> json"
  render_response :: "request \<Rightarrow> string \<Rightarrow> json \<Rightarrow> thrown + json"
  stringify :: "json \<Rightarrow> string"
  engine_stack :: string
  noTimeout :: bool
  serviceRuntime :: string

section \<open>State of the plugin\<close>

text \<open>
  A Node timer object: \<open>called\<close> is the \<^verbatim>\<open>_called\<close> property that the timer loop sets when
  it runs the timer's function, \<open>cleared\<close> records \<^verbatim>\<open>clearTimeout\<close>, \<open>delay\<close> is the
  number of milliseconds given to \<^verbatim>\<open>setTimeout\<close> (the model has no clock: a timer may run
  at any later point). The \<^verbatim>\<open>timeout\<close>
  property of a request's state is absent until the timer is armed, \<^verbatim>\<open>null\<close> when
  timeouts are disabled.
\<close>

record timer =
  called :: bool
  cleared :: bool
  delay :: nat

datatype timeout_field = TUndefined | TNull | TTimer timer

record req_state =
  is_done :: bool
  timeout :: timeout_field

text \<open>
  The held Hapi response of one request; \<open>res_sent\<close> counts the responses that
  \<^verbatim>\<open>send()\<close> has sent.
\<close>

record response =
  res_statusCode :: nat
  res_source :: json
  res_headers :: "string \<rightharpoonup> string"
  res_sent :: nat

datatype log_entry =
    SLog string
  | Console string
  | ConsoleJson json
  | ConsoleThrown thrown

type_synonym request_id = string

text \<open>
  The state of the plugin: \<^verbatim>\<open>this.requests\<close>, \<^verbatim>\<open>this.currentRequestId\<close>, the held response
  of every request, the lambda contexts created so far (each with the request that its
  callback closes over), the lines logged, and the \<^verbatim>\<open>firstCall\<close> flag of the route. All
  requests go to one route.
\<close>

record offline =
  requests :: "request_id \<rightharpoonup> req_state"
  currentRequestId :: "request_id option"
  held :: "request_id \<Rightarrow> response"
  contexts :: "request_id \<rightharpoonup> request"
  logs :: "log_entry list"
  firstCall :: bool

definition held_response :: response where
  "held_response =
     \<lparr>res_statusCode = 200, res_source = JNull, res_headers = Map.empty, res_sent = 0\<rparr>"

definition initial :: offline where
  "initial =
     \<lparr>requests = Map.empty, currentRequestId = None, held = (\<lambda>_. held_response),
      contexts = Map.empty, logs = [], firstCall = True\<rparr>"

definition serverlessLog :: "string \<Rightarrow> offline \<Rightarrow> offline" where
  "serverlessLog s st = st\<lparr>logs := logs st @ [SLog s]\<rparr>"

definition console_log :: "log_entry \<Rightarrow> offline \<Rightarrow> offline" where
  "console_log e st = st\<lparr>logs := logs st @ [e]\<rparr>"

definition printBlankLine :: "offline \<Rightarrow> offline" where
  "printBlankLine st = console_log (Console []) st"

definition update_response :: "request_id \<Rightarrow> (response \<Rightarrow> response) \<Rightarrow> offline \<Rightarrow> offline" where
  "update_response rid f st = st\<lparr>held := (held st)(rid := f (held st rid))\<rparr>"

definition update_request :: "request_id \<Rightarrow> (req_state \<Rightarrow> req_state) \<Rightarrow> offline \<Rightarrow> offline" where
  "update_request rid f st =
     (case requests st rid of
        None \<Rightarrow> st
      | Some r \<Rightarrow> st\<lparr>requests := (requests st)(rid \<mapsto> f r)\<rparr>)"

text \<open>
  \<^verbatim>\<open>response.send()\<close> on the held response. Hapi removes the \<^verbatim>\<open>send\<close> property in the
  first call, so a call on a response that was sent raises a TypeError and sends nothing.
\<close>

definition send_error :: "env \<Rightarrow> thrown" where
  "send_error ev =
     ErrorObject ''TypeError'' ''response.send is not a function'' (Some (engine_stack ev))"

definition send :: "env \<Rightarrow> request_id \<Rightarrow> offline \<Rightarrow> thrown option \<times> offline" where
  "send ev rid st =
     (if res_sent (held st rid) = 0
      then (None, update_response rid (\<lambda>r. r\<lparr>res_sent := res_sent r + 1\<rparr>) st)
      else (Some (send_error ev), st))"

text \<open>
  Hapi's \<^verbatim>\<open>response.header(name, value, options)\<close> without \<^verbatim>\<open>append\<close>: the name is
  lower-cased, and the value is stored when \<^verbatim>\<open>override\<close> is not \<^verbatim>\<open>false\<close> or the header
  has no non-empty value yet. (The separate treatment of \<^verbatim>\<open>vary\<close> is left out.)
\<close>

definition toLowerCase :: "string \<Rightarrow> string" where
  "toLowerCase s =
     map (\<lambda>c. case map_of (zip ''ABCDEFGHIJKLMNOPQRSTUVWXYZ'' ''abcdefghijklmnopqrstuvwxyz'') c of
                 None \<Rightarrow> c | Some l \<Rightarrow> l) s"

definition header_falsy :: "string option \<Rightarrow> bool" where
  "header_falsy h = (h = None \<or> h = Some [])"

definition response_header ::
  "request_id \<Rightarrow> string \<Rightarrow> string \<Rightarrow> bool \<Rightarrow> offline \<Rightarrow> offline" where
  "response_header rid name v override st =
     update_response rid
       (\<lambda>r. if override \<or> header_falsy (res_headers r (toLowerCase name))
            then r\<lparr>res_headers := (res_headers r)(toLowerCase name \<mapsto> v)\<rparr>
            else r) st"

section \<open>Stack traces\<close>

text \<open>
  The literal regular expression \<^verbatim>\<open>/server.route.handler.createLambdaContext/\<close>: an
  unanchored search where a dot stands for any character that is not a line terminator.
\<close>

definition line_terminator :: "char \<Rightarrow> bool" where
  "line_terminator c = (c = CHR 0x0A \<or> c = CHR 0x0D)"

fun match_here :: "string \<Rightarrow> string \<Rightarrow> bool" where
  "match_here [] s = True"
| "match_here (p # ps) [] = False"
| "match_here (p # ps) (c # cs) =
     ((if p = CHR ''.'' then \<not> line_terminator c else p = c) \<and> match_here ps cs)"

fun search_from :: "string \<Rightarrow> string \<Rightarrow> bool" where
  "search_from p [] = match_here p []"
| "search_from p (c # cs) = (match_here p (c # cs) \<or> search_from p cs)"

definition is_context_frame :: "string \<Rightarrow> bool" where
  "is_context_frame item = search_from ''server.route.handler.createLambdaContext'' item"

text \<open>\<^verbatim>\<open>line.trim()\<close> on the ASCII white space characters.\<close>

definition is_space :: "char \<Rightarrow> bool" where
  "is_space c = (c \<in> set [CHR 0x09, CHR 0x0A, CHR 0x0B, CHR 0x0C, CHR 0x0D, CHR 0x20])"

definition trim :: "string \<Rightarrow> string" where
  "trim s = rev (dropWhile is_space (rev (dropWhile is_space s)))"

text \<open>
  \<^verbatim>\<open>_getArrayStackTrace\<close>. \<^verbatim>\<open>findIndex\<close> gives \<open>-1\<close> when no line matches, and
  \<^verbatim>\<open>slice(0, -1)\<close> then drops the last line.
\<close>

definition getArrayStackTrace :: "string option \<Rightarrow> string list option" where
  "getArrayStackTrace stack =
     (case stack of
        None \<Rightarrow> None
      | Some s \<Rightarrow>
          if s = [] then None
          else
            let splittedStack = split_on CHR 0x0A s
            in Some (map trim
                 (if list_ex is_context_frame splittedStack
                  then takeWhile (\<lambda>item. \<not> is_context_frame item) splittedStack
                  else butlast splittedStack)))"

definition stackTrace_json :: "string list option \<Rightarrow> json" where
  "stackTrace_json t = (case t of None \<Rightarrow> JNull | Some ls \<Rightarrow> JArr (map JStr ls))"

text \<open>Properties of a caught value: \<^verbatim>\<open>err.stack\<close> and \<^verbatim>\<open>err.constructor.name\<close>.\<close>

fun stack_of :: "thrown \<Rightarrow> string option" where
  "stack_of (ErrorObject c m s) = s"
| "stack_of (StringValue s) = None"

fun constructor_name :: "thrown \<Rightarrow> string" where
  "constructor_name (ErrorObject c m s) = c"
| "constructor_name (StringValue s) = ''String''"

text \<open>
  \<^verbatim>\<open>(err.message || err).toString()\<close>. For an error object with an empty message,
  \<^verbatim>\<open>Error.prototype.toString\<close> gives the error's name, taken to be its constructor's name.
\<close>

fun errorMessage_of :: "thrown \<Rightarrow> string" where
  "errorMessage_of (ErrorObject c m s) = (if m \<noteq> [] then m else c)"
| "errorMessage_of (StringValue s) = s"

text \<open>Truthiness of the \<^verbatim>\<open>err\<close> argument: \<^verbatim>\<open>null\<close>, \<^verbatim>\<open>undefined\<close> and \<open>''\<close> are falsy.\<close>

fun truthy_err :: "thrown option \<Rightarrow> bool" where
  "truthy_err None = False"
| "truthy_err (Some (StringValue s)) = (s \<noteq> [])"
| "truthy_err (Some (ErrorObject c m s)) = True"

section \<open>Timers and synthetic replies\<close>

text \<open>\<^verbatim>\<open>clearTimeout(t)\<close>: a timer is cancelled; \<^verbatim>\<open>null\<close> and \<^verbatim>\<open>undefined\<close> are ignored.\<close>

fun clear_timer :: "timeout_field \<Rightarrow> timeout_field" where
  "clear_timer (TTimer t) = TTimer (t\<lparr>cleared := True\<rparr>)"
| "clear_timer TNull = TNull"
| "clear_timer TUndefined = TUndefined"

fun timer_called :: "timeout_field \<Rightarrow> bool" where
  "timer_called (TTimer t) = called t"
| "timer_called TNull = False"
| "timer_called TUndefined = False"

definition missing_request :: "env \<Rightarrow> string \<Rightarrow> thrown" where
  "missing_request ev p =
     ErrorObject ''TypeError''
       (''Cannot read property '' @ quote @ p @ quote @ '' of undefined'')
       (Some (engine_stack ev))"

text \<open>
  \<^verbatim>\<open>_clearTimeout\<close>: \<open>Inr True\<close> when the timer has already run, otherwise the timer is
  cancelled and the result is \<^verbatim>\<open>undefined\<close> (\<open>Inr False\<close>, only its truthiness is used).
\<close>

definition clearTimeout' :: "env \<Rightarrow> request_id \<Rightarrow> offline \<Rightarrow> (thrown + bool) \<times> offline" where
  "clearTimeout' ev rid st =
     (case requests st rid of
        None \<Rightarrow> (Inl (missing_request ev ''timeout''), st)
      | Some r \<Rightarrow>
          if timer_called (timeout r) then (Inr True, st)
          else (Inr False, update_request rid (\<lambda>r. r\<lparr>timeout := clear_timer (timeout r)\<rparr>) st))"

definition offlineInfo :: string where
  "offlineInfo = ''If you believe this is an issue with the plugin please submit it, thanks. https://github.com/dherault/serverless-offline/issues''"

definition error_body :: "string \<Rightarrow> thrown \<Rightarrow> json" where
  "error_body message err =
     JObj [(''errorMessage'', JStr message),
           (''errorType'', JStr (constructor_name err)),
           (''stackTrace'', stackTrace_json (getArrayStackTrace (stack_of err))),
           (''offlineInfo'', JStr offlineInfo)]"

text \<open>\<^verbatim>\<open>_reply500\<close>.\<close>

definition reply500 ::
  "env \<Rightarrow> request_id \<Rightarrow> string \<Rightarrow> thrown \<Rightarrow> offline \<Rightarrow> thrown option \<times> offline" where
  "reply500 ev rid message err st =
     (case clearTimeout' ev rid st of
        (Inl e, st1) \<Rightarrow> (Some e, st1)
      | (Inr True, st1) \<Rightarrow> (None, st1)
      | (Inr False, st1) \<Rightarrow>
          let st2 = update_request rid (\<lambda>r. r\<lparr>is_done := True\<rparr>) st1;
              stackTrace = getArrayStackTrace (stack_of err);
              st3 = serverlessLog message st2;
              st4 = console_log (case stackTrace of
                                   Some ls \<Rightarrow> ConsoleJson (JArr (map JStr ls))
                                 | None \<Rightarrow> ConsoleThrown err) st3;
              st5 = update_response rid
                      (\<lambda>r. r\<lparr>res_statusCode := 200, res_source := error_body message err\<rparr>) st4;
              st6 = serverlessLog ''Replying error in handler'' st5
          in send ev rid st6)"

definition timeout_body :: "string \<Rightarrow> nat \<Rightarrow> string" where
  "timeout_body fname ms =
     ''[Serverless-Offline] Your '' @ lambda_sign @ '' handler '' @ quote @ fname @ quote
       @ '' timed out after '' @ show_nat ms @ ''ms.''"

text \<open>\<^verbatim>\<open>_replyTimeout\<close>, the function the timer runs.\<close>

definition replyTimeout ::
  "env \<Rightarrow> string \<Rightarrow> nat \<Rightarrow> request_id \<Rightarrow> offline \<Rightarrow> thrown option \<times> offline" where
  "replyTimeout ev fname ms rid st =
     (if currentRequestId st \<noteq> Some rid then (None, st)
      else
        let st1 = update_request rid (\<lambda>r. r\<lparr>is_done := True\<rparr>) st;
            st2 = serverlessLog (''Replying timeout after '' @ show_nat ms @ ''ms'') st1;
            st3 = update_response rid
                    (\<lambda>r. r\<lparr>res_statusCode := 503,
                           res_source := JStr (timeout_body fname ms)\<rparr>) st2
        in send ev rid st3)"

section \<open>The completion callback\<close>

subsection \<open>Response selection\<close>

definition defaultContentType :: string where
  "defaultContentType = ''application/json''"

text \<open>\<^verbatim>\<open>endpoint.responses[key].selectionPattern || key\<close>, wrapped as \<^verbatim>\<open>^...$\<close>.\<close>

definition rule_pattern :: "string \<Rightarrow> response_rule \<Rightarrow> string" where
  "rule_pattern key rule =
     (case selectionPattern rule of None \<Rightarrow> key | Some p \<Rightarrow> if p = [] then key else p)"

definition rule_matches :: "env \<Rightarrow> string \<Rightarrow> string \<Rightarrow> response_rule \<Rightarrow> bool" where
  "rule_matches ev errorMessage key rule =
     regexp_match ev (''^'' @ rule_pattern key rule @ ''$'') errorMessage"

text \<open>
  The \<^verbatim>\<open>for (let key in endpoint.responses)\<close> loop over the properties in enumeration
  order; \<open>''default''\<close> is the initial value of \<^verbatim>\<open>responseName\<close>.
\<close>

fun scan_responses :: "env \<Rightarrow> string \<Rightarrow> (string \<times> response_rule) list \<Rightarrow> string" where
  "scan_responses ev errorMessage [] = ''default''"
| "scan_responses ev errorMessage ((key, rule) # rest) =
     (if key = ''default'' then scan_responses ev errorMessage rest
      else if rule_matches ev errorMessage key rule then key
      else scan_responses ev errorMessage rest)"

definition failure_result :: "thrown \<Rightarrow> json" where
  "failure_result err =
     JObj [(''errorMessage'', JStr (errorMessage_of err)),
           (''errorType'', JStr (constructor_name err)),
           (''stackTrace'', stackTrace_json (getArrayStackTrace (stack_of err)))]"

definition response_entries :: "endpoint \<Rightarrow> (string \<times> response_rule) list" where
  "response_entries ep = (case responses ep of None \<Rightarrow> [] | Some rs \<Rightarrow> js_entries rs)"

definition response_selection ::
  "env \<Rightarrow> endpoint \<Rightarrow> thrown option \<Rightarrow> json \<Rightarrow> offline \<Rightarrow> string \<times> json \<times> offline" where
  "response_selection ev ep err data st =
     (case err of
        None \<Rightarrow> (''default'', data, st)
      | Some e \<Rightarrow>
          if \<not> truthy_err err then (''default'', data, st)
          else
            let errorMessage = errorMessage_of e;
                st1 = serverlessLog (''Failure: '' @ errorMessage) st;
                st2 = (case getArrayStackTrace (stack_of e) of
                         None \<Rightarrow> st1
                       | Some ls \<Rightarrow>
                           console_log (Console (join [CHR 0x0A, CHR 0x20, CHR 0x20] ls)) st1)
            in (scan_responses ev errorMessage (response_entries ep), failure_result e, st2))"

subsection \<open>Response parameters\<close>

text \<open>
  Both warning branches end with the call \<^verbatim>\<open>logPluginIssue()\<close>. No binding of that name
  is in scope (the method is \<^verbatim>\<open>this.logPluginIssue\<close>), so the call raises a
  ReferenceError after the two warning lines have been logged.
\<close>

definition logPluginIssue_error :: "env \<Rightarrow> thrown" where
  "logPluginIssue_error ev =
     ErrorObject ''ReferenceError'' ''logPluginIssue is not defined'' (Some (engine_stack ev))"

definition parameter_warning :: "string \<Rightarrow> string \<Rightarrow> string" where
  "parameter_warning key v =
     ''Warning: while processing responseParameter '' @ dquote @ key @ dquote @ '': ''
       @ dquote @ v @ dquote"

definition right_hand_warning :: "string \<Rightarrow> string" where
  "right_hand_warning v =
     ''Offline plugin only supports '' @ dquote @ ''integration.response.body[.JSON_path]''
       @ dquote @ '' right-hand responseParameter. Found '' @ dquote @ v @ dquote
       @ '' instead. Skipping.''"

definition left_hand_warning :: "string \<Rightarrow> string" where
  "left_hand_warning key =
     ''Offline plugin only supports '' @ dquote @ ''method.response.header.PARAM_NAME''
       @ dquote @ '' left-hand responseParameter. Found '' @ dquote @ key @ dquote
       @ '' instead. Skipping.''"

text \<open>\<^verbatim>\<open>value.match(/^'.*'$/) ? value.slice(1, -1) : value\<close>.\<close>

definition quoted :: "string \<Rightarrow> bool" where
  "quoted v =
     (2 \<le> length v \<and> hd v = CHR 0x27 \<and> last v = CHR 0x27
      \<and> list_all (\<lambda>c. \<not> line_terminator c) v)"

definition literal_value :: "string \<Rightarrow> string" where
  "literal_value v = (if quoted v then butlast (tl v) else v)"

text \<open>The body of \<^verbatim>\<open>responseParametersKeys.forEach\<close> for one key and its value.\<close>

definition process_responseParameter ::
  "env \<Rightarrow> request_id \<Rightarrow> json \<Rightarrow> string \<Rightarrow> string \<Rightarrow> offline \<Rightarrow> thrown option \<times> offline" where
  "process_responseParameter ev rid result key v st =
     (let keyArray = split_on CHR ''.'' key;
          valueArray = split_on CHR ''.'' v
      in if startsWith key ''method.response.header'' \<and> truthy_at keyArray 3 then
           let headerName = join ''.'' (drop 3 keyArray)
           in if startsWith v ''integration.response'' then
                if 2 < length valueArray \<and> valueArray ! 2 = ''body'' then
                  (case toString_of (engine_stack ev)
                          (if truthy_at valueArray 3
                           then jsonPath ev result (join ''.'' (drop 3 valueArray))
                           else result) of
                     Inl e \<Rightarrow> (Some e, st)
                   | Inr headerValue \<Rightarrow>
                       (None, response_header rid headerName headerValue True st))
                else
                  (Some (logPluginIssue_error ev),
                   serverlessLog (right_hand_warning v)
                     (serverlessLog (parameter_warning key v) (printBlankLine st)))
              else (None, response_header rid headerName (literal_value v) True st)
         else
           (Some (logPluginIssue_error ev),
            serverlessLog (left_hand_warning key)
              (serverlessLog (parameter_warning key v) (printBlankLine st))))"

fun process_responseParameters ::
  "env \<Rightarrow> request_id \<Rightarrow> json \<Rightarrow> (string \<times> string) list \<Rightarrow> offline
   \<Rightarrow> thrown option \<times> offline" where
  "process_responseParameters ev rid result [] st = (None, st)"
| "process_responseParameters ev rid result ((key, v) # rest) st =
     (case process_responseParameter ev rid result key v st of
        (Some e, st1) \<Rightarrow> (Some e, st1)
      | (None, st1) \<Rightarrow> process_responseParameters ev rid result rest st1)"

definition parameter_entries :: "response_rule option \<Rightarrow> (string \<times> string) list" where
  "parameter_entries chosenResponse =
     (case chosenResponse of
        None \<Rightarrow> []
      | Some rule \<Rightarrow> (case responseParameters rule of None \<Rightarrow> [] | Some ps \<Rightarrow> js_entries ps))"

subsection \<open>Response templates\<close>

definition template_error_message :: "string \<Rightarrow> string \<Rightarrow> string" where
  "template_error_message templateName fname =
     ''Error while parsing responseTemplate '' @ quote @ templateName @ quote
       @ '' for lambda '' @ fname @ '':''"

definition template_entries :: "response_rule option \<Rightarrow> (string \<times> string) list" where
  "template_entries chosenResponse =
     (case chosenResponse of
        None \<Rightarrow> []
      | Some rule \<Rightarrow> (case responseTemplates rule of None \<Rightarrow> [] | Some ts \<Rightarrow> js_entries ts))"

text \<open>
  Gives \<^verbatim>\<open>responseContentType\<close>, \<^verbatim>\<open>result\<close> and the state after the block
  \<^verbatim>\<open>if (isPlainObject(responseTemplates))\<close>.
\<close>

definition process_responseTemplates ::
  "env \<Rightarrow> endpoint \<Rightarrow> request \<Rightarrow> response_rule option \<Rightarrow> json \<Rightarrow> offline
   \<Rightarrow> string \<times> json \<times> offline" where
  "process_responseTemplates ev ep rq chosenResponse result st =
     (case template_entries chosenResponse of
        [] \<Rightarrow> (defaultContentType, result, st)
      | (templateName, responseTemplate) # _ \<Rightarrow>
          if responseTemplate = [] then (templateName, result, st)
          else
            (case render_response ev rq responseTemplate result of
               Inr rendered \<Rightarrow> (templateName, rendered, st)
             | Inl error \<Rightarrow>
                 (templateName, result,
                  console_log (case stack_of error of
                                 Some s \<Rightarrow> Console s
                               | None \<Rightarrow> Console ''undefined'')
                    (serverlessLog (template_error_message templateName (funName ep)) st))))"

subsection \<open>The callback\<close>

definition twice_warning :: "string \<Rightarrow> string" where
  "twice_warning fname =
     ''Warning: context.done called twice within handler '' @ quote @ fname @ quote @ ''!''"

definition no_statusCode_warning :: "string \<Rightarrow> string" where
  "no_statusCode_warning responseName =
     ''Warning: No statusCode found for response '' @ dquote @ responseName @ dquote @ ''.''"

definition chosen_response :: "endpoint \<Rightarrow> string \<Rightarrow> response_rule option" where
  "chosen_response ep responseName =
     (case responses ep of None \<Rightarrow> None | Some rs \<Rightarrow> get_prop rs responseName)"

text \<open>\<^verbatim>\<open>chosenResponse && chosenResponse.statusCode\<close>, \<open>None\<close> when that is falsy.\<close>

definition configured_statusCode :: "response_rule option \<Rightarrow> nat option" where
  "configured_statusCode chosenResponse =
     (case chosenResponse of
        None \<Rightarrow> None
      | Some rule \<Rightarrow>
          (case statusCode rule of None \<Rightarrow> None | Some n \<Rightarrow> if n = 0 then None else Some n))"

text \<open>
  The block "HAPIJS RESPONSE CONFIGURATION" (lines 557 to 583), up to and without
  \<^verbatim>\<open>response.send()\<close>.
\<close>

definition configure_response ::
  "env \<Rightarrow> request_id \<Rightarrow> thrown option \<Rightarrow> string \<Rightarrow> response_rule option \<Rightarrow> string \<Rightarrow> json
   \<Rightarrow> offline \<Rightarrow> offline" where
  "configure_response ev rid err responseName chosenResponse responseContentType result st =
     (let code = (case configured_statusCode chosenResponse of None \<Rightarrow> 200 | Some n \<Rightarrow> n);
          st1 = (if configured_statusCode chosenResponse = None
                 then serverlessLog (no_statusCode_warning responseName) (printBlankLine st)
                 else st);
          st2 = response_header rid ''Content-Type'' responseContentType False st1;
          st3 = update_response rid
                  (\<lambda>r. r\<lparr>res_statusCode := code, res_source := result\<rparr>) st2;
          st4 = serverlessLog
                  (if truthy_err err then ''Replying '' @ show_nat code
                   else ''['' @ show_nat code @ ''] '' @ stringify ev result)
                  st3
      in st4)"

text \<open>
  The callback from \<^verbatim>\<open>let result = data\<close> (line 431) to \<^verbatim>\<open>response.send()\<close> at its
  end.
\<close>

definition respond ::
  "env \<Rightarrow> endpoint \<Rightarrow> request \<Rightarrow> request_id \<Rightarrow> thrown option \<Rightarrow> json \<Rightarrow> offline
   \<Rightarrow> thrown option \<times> offline" where
  "respond ev ep rq rid err data st =
     (case response_selection ev ep err data st of
        (responseName, result, st1) \<Rightarrow>
          let chosenResponse = chosen_response ep responseName
          in (case process_responseParameters ev rid result
                     (parameter_entries chosenResponse) st1 of
                (Some e, st2) \<Rightarrow> (Some e, st2)
              | (None, st2) \<Rightarrow>
                  (case process_responseTemplates ev ep rq chosenResponse result st2 of
                     (responseContentType, result', st3) \<Rightarrow>
                       send ev rid
                         (configure_response ev rid err responseName chosenResponse
                            responseContentType result' st3))))"

text \<open>
  The function given to \<^verbatim>\<open>createLambdaContext\<close>; \<^verbatim>\<open>context.done\<close>, \<^verbatim>\<open>context.succeed\<close>
  and \<^verbatim>\<open>context.fail\<close> call it. The result is the exception that leaves the callback, if
  any, with the state at that point.
\<close>

definition callback ::
  "env \<Rightarrow> endpoint \<Rightarrow> request \<Rightarrow> request_id \<Rightarrow> thrown option \<Rightarrow> json \<Rightarrow> offline
   \<Rightarrow> thrown option \<times> offline" where
  "callback ev ep rq rid err data st =
     (case clearTimeout' ev rid st of
        (Inl e, st1) \<Rightarrow> (Some e, st1)
      | (Inr True, st1) \<Rightarrow> (None, st1)
      | (Inr False, st1) \<Rightarrow>
          (case requests st1 rid of
             None \<Rightarrow> (Some (missing_request ev ''done''), st1)
           | Some r \<Rightarrow>
               if is_done r
               then (None, serverlessLog (twice_warning (funName ep)) (printBlankLine st1))
               else respond ev ep rq rid err data
                      (update_request rid (\<lambda>r. r\<lparr>is_done := True\<rparr>) st1)))"

section \<open>The route handler and the events of a run\<close>

text \<open>
  What one inbound request brings with it: the request, whether
  \<^verbatim>\<open>functionHelper.createHandler\<close> or the rendering of the request template raises, the
  completion calls the handler makes before it returns, and how the handler's call ends.
  An exception raised inside a completion call leaves the handler.
\<close>

datatype handler_end =
    Returns
  | ReturnsThenable
  | ReturnsError thrown
  | Throws thrown

record arrival =
  arr_request :: request
  arr_load_error :: "thrown option"
  arr_template_error :: "thrown option"
  arr_sync_calls :: "(thrown option \<times> json) list"
  arr_end :: handler_end

fun run_sync_calls ::
  "env \<Rightarrow> endpoint \<Rightarrow> request \<Rightarrow> request_id \<Rightarrow> (thrown option \<times> json) list \<Rightarrow> offline
   \<Rightarrow> thrown option \<times> offline" where
  "run_sync_calls ev ep rq rid [] st = (None, st)"
| "run_sync_calls ev ep rq rid ((err, data) # calls) st =
     (case callback ev ep rq rid err data st of
        (Some e, st1) \<Rightarrow> (Some e, st1)
      | (None, st1) \<Rightarrow> run_sync_calls ev ep rq rid calls st1)"

definition route_line :: "endpoint \<Rightarrow> request \<Rightarrow> string" where
  "route_line ep rq =
     http_method ep @ '' '' @ req_path rq @ '' ('' @ lambda_sign @ '': '' @ funName ep @ '')''"

definition load_error_message :: "endpoint \<Rightarrow> string" where
  "load_error_message ep = ''Error while loading '' @ funName ep"

definition template_parse_message :: "endpoint \<Rightarrow> string \<Rightarrow> string" where
  "template_parse_message ep contentType =
     ''Error while parsing template '' @ dquote @ contentType @ dquote @ '' for '' @ funName ep"

definition uncaught_message :: "endpoint \<Rightarrow> string" where
  "uncaught_message ep = ''Uncaught error in your '' @ quote @ funName ep @ quote @ '' handler''"

definition request_done :: "offline \<Rightarrow> request_id \<Rightarrow> bool" where
  "request_done st rid = (case requests st rid of None \<Rightarrow> False | Some r \<Rightarrow> is_done r)"

definition new_timer :: "nat \<Rightarrow> timer" where
  "new_timer ms = \<lparr>called = False, cleared = False, delay = ms\<rparr>"

text \<open>
  The start of the route's \<^verbatim>\<open>handler\<close> function (lines 361 to 374): the log lines, the
  new entry of \<^verbatim>\<open>this.requests\<close>, the marker of the most recent request and the held
  response.
\<close>

definition begin_request :: "endpoint \<Rightarrow> request_id \<Rightarrow> request \<Rightarrow> offline \<Rightarrow> offline" where
  "begin_request ep rid rq st =
     (let st1 = serverlessLog (route_line ep rq) (printBlankLine st);
          st2 = (if firstCall st1
                 then (serverlessLog ''The first request might take a few extra seconds'' st1)
                        \<lparr>firstCall := False\<rparr>
                 else st1)
      in st2\<lparr>requests := (requests st2)(rid \<mapsto> \<lparr>is_done = False, timeout = TUndefined\<rparr>),
             currentRequestId := Some rid,
             held := (held st2)(rid := held_response)\<rparr>)"

text \<open>Lines 592 to 595: the timer is armed unless timeouts are disabled.\<close>

definition arm_timer :: "env \<Rightarrow> endpoint \<Rightarrow> request_id \<Rightarrow> offline \<Rightarrow> offline" where
  "arm_timer ev ep rid st =
     update_request rid
       (\<lambda>r. r\<lparr>timeout := (if noTimeout ev then TNull
                          else TTimer (new_timer (funTimeout ep)))\<rparr>) st"

text \<open>Lines 598 to 610: the call of the handler inside \<^verbatim>\<open>try\<close>, and the \<^verbatim>\<open>catch\<close>.\<close>

definition call_handler ::
  "env \<Rightarrow> endpoint \<Rightarrow> request \<Rightarrow> request_id \<Rightarrow> arrival \<Rightarrow> offline \<Rightarrow> thrown option \<times> offline" where
  "call_handler ev ep rq rid a st =
     (case run_sync_calls ev ep rq rid (arr_sync_calls a) st of
        (Some error, st1) \<Rightarrow> reply500 ev rid (uncaught_message ep) error st1
      | (None, st1) \<Rightarrow>
          (case arr_end a of
             Throws error \<Rightarrow> reply500 ev rid (uncaught_message ep) error st1
           | ReturnsError x \<Rightarrow>
               if serviceRuntime ev = ''babel'' \<and> \<not> request_done st1 rid
               then (case callback ev ep rq rid (Some x) JNull st1 of
                       (Some error, st2) \<Rightarrow> reply500 ev rid (uncaught_message ep) error st2
                     | (None, st2) \<Rightarrow> (None, st2))
               else (None, st1)
           | ReturnsThenable \<Rightarrow> (None, st1)
           | Returns \<Rightarrow> (None, st1)))"

text \<open>The \<^verbatim>\<open>handler\<close> function of the route (lines 360 to 611).\<close>

definition route_handler ::
  "env \<Rightarrow> endpoint \<Rightarrow> request_id \<Rightarrow> arrival \<Rightarrow> offline \<Rightarrow> thrown option \<times> offline" where
  "route_handler ev ep rid a st =
     (let rq = arr_request a;
          st1 = begin_request ep rid rq st;
          contentType = (case req_mime rq of
                           None \<Rightarrow> defaultContentType
                         | Some m \<Rightarrow> if m = [] then defaultContentType else m)
      in case arr_load_error a of
           Some err \<Rightarrow> reply500 ev rid (load_error_message ep) err st1
         | None \<Rightarrow>
             (case arr_template_error a of
                Some err \<Rightarrow> reply500 ev rid (template_parse_message ep contentType) err st1
              | None \<Rightarrow>
                  call_handler ev ep rq rid a
                    (arm_timer ev ep rid (st1\<lparr>contexts := (contexts st1)(rid \<mapsto> rq)\<rparr>))))"

text \<open>
  The timer loop of Node: a timer that was armed, not cancelled and has not run yet runs
  once; it is marked as called and its function \<^verbatim>\<open>_replyTimeout\<close> is applied.
\<close>

definition timer_fires ::
  "env \<Rightarrow> endpoint \<Rightarrow> request_id \<Rightarrow> offline \<Rightarrow> thrown option \<times> offline" where
  "timer_fires ev ep rid st =
     (case requests st rid of
        None \<Rightarrow> (None, st)
      | Some r \<Rightarrow>
          (case timeout r of
             TTimer t \<Rightarrow>
               if called t \<or> cleared t then (None, st)
               else replyTimeout ev (funName ep) (funTimeout ep) rid
                      (update_request rid (\<lambda>r. r\<lparr>timeout := TTimer (t\<lparr>called := True\<rparr>)\<rparr>) st)
           | TNull \<Rightarrow> (None, st)
           | TUndefined \<Rightarrow> (None, st)))"

text \<open>
  The events of a run: a request arrives with a fresh or reused id; a completion call
  arrives later from the handler's asynchronous work (it exists only for a request whose
  lambda context was created); a timer runs.
\<close>

datatype event =
    Arrive request_id arrival
  | Completion request_id "thrown option" json
  | TimerFires request_id

fun step :: "env \<Rightarrow> endpoint \<Rightarrow> event \<Rightarrow> offline \<Rightarrow> thrown option \<times> offline" where
  "step ev ep (Arrive rid a) st = route_handler ev ep rid a st"
| "step ev ep (Completion rid err data) st =
     (case contexts st rid of
        None \<Rightarrow> (None, st)
      | Some rq \<Rightarrow> callback ev ep rq rid err data st)"
| "step ev ep (TimerFires rid) st = timer_fires ev ep rid st"

text \<open>A run ends at the first exception that the plugin does not catch.\<close>

fun run :: "env \<Rightarrow> endpoint \<Rightarrow> event list \<Rightarrow> offline \<Rightarrow> thrown option \<times> offline" where
  "run ev ep [] st = (None, st)"
| "run ev ep (e # es) st =
     (case step ev ep e st of
        (Some err, st1) \<Rightarrow> (Some err, st1)
      | (None, st1) \<Rightarrow> run ev ep es st1)"


section \<open>Instances of the collaborators for examples\<close>

text \<open>
  Modelled from the spec: the JSON-Path Extractor (module \<^verbatim>\<open>./jsonPath\<close>, not part of
  \<^verbatim>\<open>src/index.js\<close>), "pure function: (value, dotted path) -> sub-value". A missing field
  gives \<^verbatim>\<open>undefined\<close>.
\<close>

fun dotted_lookup :: "json \<Rightarrow> string list \<Rightarrow> json" where
  "dotted_lookup v [] = v"
| "dotted_lookup v (k # ks) =
     (case v of
        JObj ps \<Rightarrow> (case map_of ps k of None \<Rightarrow> JUndefined | Some w \<Rightarrow> dotted_lookup w ks)
      | _ \<Rightarrow> JUndefined)"

definition spec_jsonPath :: "json \<Rightarrow> string \<Rightarrow> json" where
  "spec_jsonPath v p = dotted_lookup v (split_on CHR ''.'' p)"

text \<open>
  A small regular-expression matcher used as \<open>regexp_match\<close> in examples only. It covers
  literal characters, the dot, a postfix star, a leading \<open>^\<close> and a final \<open>$\<close>.
\<close>

fun small_here :: "string \<Rightarrow> string \<Rightarrow> bool" where
  "small_here [] s = True"
| "small_here [c] [] = (c = CHR ''$'')"
| "small_here [c] (x # xs) = (c \<noteq> CHR ''$'' \<and> (c = CHR ''.'' \<or> c = x))"
| "small_here (c # d # r) [] = (if d = CHR ''*'' then small_here r [] else False)"
| "small_here (c # d # r) (x # xs) =
     (if d = CHR ''*''
      then small_here r (x # xs) \<or> ((c = CHR ''.'' \<or> c = x) \<and> small_here (c # d # r) xs)
      else (c = CHR ''.'' \<or> c = x) \<and> small_here (d # r) xs)"

fun small_search :: "string \<Rightarrow> string \<Rightarrow> bool" where
  "small_search p [] = small_here p []"
| "small_search p (x # xs) = (small_here p (x # xs) \<or> small_search p xs)"

definition small_regexp :: "string \<Rightarrow> string \<Rightarrow> bool" where
  "small_regexp p s =
     (case p of
        [] \<Rightarrow> True
      | c # r \<Rightarrow> if c = CHR ''^'' then small_here r s else small_search p s)"

text \<open>
  The environment of the examples: templates without directives render to their own text,
  and the log shows results by \<open>toString_text\<close>.
\<close>

definition example_env :: env where
  "example_env =
     \<lparr>regexp_match = small_regexp,
      jsonPath = spec_jsonPath,
      render_response = (\<lambda>rq t v. Inr (JStr t)),
      stringify = toString_text,
      engine_stack = ''ReferenceError'',
      noTimeout = False,
      serviceRuntime = ''nodejs4.3''\<rparr>"

definition example_request :: request where
  "example_request = \<lparr>req_path = ''/hello'', req_mime = None\<rparr>"

definition plain_rule :: response_rule where
  "plain_rule =
     \<lparr>statusCode = Some 200, selectionPattern = None, responseParameters = None,
      responseTemplates = None\<rparr>"

definition example_endpoint :: endpoint where
  "example_endpoint =
     \<lparr>funName = ''hello'', funTimeout = 1000, http_method = ''GET'',
      responses = Some [(''default'', plain_rule)]\<rparr>"

text \<open>A handler that has not completed when its call returns.\<close>

definition pending_arrival :: arrival where
  "pending_arrival =
     \<lparr>arr_request = example_request, arr_load_error = None, arr_template_error = None,
      arr_sync_calls = [], arr_end = Returns\<rparr>"

section \<open>The specification's wording of the selection\<close>

text \<open>
  The selection as the specification words it, to be compared with \<open>scan_responses\<close>: the
  rules in the order given, the rule named "default" skipped, the first rule whose pattern
  matches chosen, "default" when none matches.
\<close>

definition first_match_selection ::
  "env \<Rightarrow> string \<Rightarrow> (string \<times> response_rule) list \<Rightarrow> string" where
  "first_match_selection ev errorMessage rs =
     (case find (\<lambda>(key, rule). key \<noteq> ''default'' \<and> rule_matches ev errorMessage key rule) rs of
        None \<Rightarrow> ''default''
      | Some (key, rule) \<Rightarrow> key)"

definition pattern_rule :: "string \<Rightarrow> response_rule" where
  "pattern_rule p = plain_rule\<lparr>selectionPattern := Some p\<rparr>"

section \<open>States of the examples\<close>

definition hi_result :: json where
  "hi_result = JObj [(''msg'', JStr ''hi'')]"

text \<open>
  Request A after its arrival with a handler that stays pending, after that handler has
  completed once, and after the timer of A has run instead.
\<close>

definition arrived_state :: offline where
  "arrived_state =
     snd (run example_env example_endpoint [Arrive ''A'' pending_arrival] initial)"

definition completed_state :: offline where
  "completed_state =
     snd (run example_env example_endpoint
            [Arrive ''A'' pending_arrival, Completion ''A'' None hi_result] initial)"

definition timed_out_state :: offline where
  "timed_out_state =
     snd (run example_env example_endpoint
            [Arrive ''A'' pending_arrival, TimerFires ''A''] initial)"

text \<open>Request A is pending and request B has arrived after it.\<close>

definition two_arrivals_state :: offline where
  "two_arrivals_state =
     snd (run example_env example_endpoint
            [Arrive ''A'' pending_arrival, Arrive ''B'' pending_arrival] initial)"


text \<open>Endpoints of the examples with response parameters and response templates.\<close>

definition parameters_endpoint :: "(string \<times> string) list \<Rightarrow> endpoint" where
  "parameters_endpoint ps =
     example_endpoint\<lparr>responses :=
       Some [(''default'', plain_rule\<lparr>responseParameters := Some ps\<rparr>)]\<rparr>"

definition templates_endpoint :: "(string \<times> string) list \<Rightarrow> endpoint" where
  "templates_endpoint ts =
     example_endpoint\<lparr>responses :=
       Some [(''default'', plain_rule\<lparr>responseTemplates := Some ts\<rparr>)]\<rparr>"

text \<open>A handler that completes with \<open>hi_result\<close> and then throws, in the same call.\<close>

definition complete_then_throw :: arrival where
  "complete_then_throw =
     pending_arrival\<lparr>arr_sync_calls := [(None, hi_result)],
                     arr_end := Throws (ErrorObject ''Error'' ''boom'' None)\<rparr>"

section \<open>Relations between states used in the proofs\<close>

text \<open>What does not touch the request table.\<close>

definition same_control :: "offline \<Rightarrow> offline \<Rightarrow> bool" where
  "same_control st st' =
     (requests st' = requests st \<and> currentRequestId st' = currentRequestId st
      \<and> contexts st' = contexts st \<and> firstCall st' = firstCall st)"

text \<open>
  A stage that sends nothing: the control state and the send counters stay, only the
  response of \<open>rid\<close> and the log may change, and no double-completion warning is logged.
\<close>

definition quiet :: "request_id \<Rightarrow> string \<Rightarrow> offline \<Rightarrow> offline \<Rightarrow> bool" where
  "quiet rid f st st' =
     (same_control st st'
      \<and> (\<forall>x. res_sent (held st' x) = res_sent (held st x))
      \<and> (\<forall>x. x \<noteq> rid \<longrightarrow> held st' x = held st x)
      \<and> (\<exists>lg. logs st' = logs st @ lg \<and> SLog (twice_warning f) \<notin> set lg))"

text \<open>A stage that sends the first response of \<open>rid\<close>.\<close>

definition sends_once :: "request_id \<Rightarrow> string \<Rightarrow> offline \<Rightarrow> offline \<Rightarrow> bool" where
  "sends_once rid f st st' =
     (same_control st st'
      \<and> res_sent (held st rid) = 0
      \<and> res_sent (held st' rid) = res_sent (held st rid) + 1
      \<and> (\<forall>x. x \<noteq> rid \<longrightarrow> held st' x = held st x)
      \<and> (\<exists>lg. logs st' = logs st @ lg \<and> SLog (twice_warning f) \<notin> set lg))"

text \<open>
  Handling request \<open>rid\<close>: the marker of the most recent request and the lambda contexts
  stay, every other request and response stays, and the timer of \<open>rid\<close> is at most
  cancelled.
\<close>

definition timer_kept :: "req_state \<Rightarrow> req_state \<Rightarrow> bool" where
  "timer_kept r r' = (timeout r' = timeout r \<or> timeout r' = clear_timer (timeout r))"

definition handles :: "request_id \<Rightarrow> offline \<Rightarrow> offline \<Rightarrow> bool" where
  "handles rid st st' =
     (currentRequestId st' = currentRequestId st
      \<and> contexts st' = contexts st
      \<and> (\<forall>k. k \<noteq> rid \<longrightarrow> requests st' k = requests st k \<and> held st' k = held st k)
      \<and> rel_option timer_kept (requests st rid) (requests st' rid))"

text \<open>The \<^verbatim>\<open>timeout\<close> property of a request's state when the route handler ends its set-up.\<close>

definition first_timeout :: "env \<Rightarrow> endpoint \<Rightarrow> arrival \<Rightarrow> timeout_field" where
  "first_timeout ev ep a =
     (if arr_load_error a \<noteq> None \<or> arr_template_error a \<noteq> None then TUndefined
      else if noTimeout ev then TNull
      else TTimer (new_timer (funTimeout ep)))"

text \<open>No request has a timer object.\<close>

definition no_timers :: "offline \<Rightarrow> bool" where
  "no_timers st =
     (\<forall>k r. requests st k = Some r \<longrightarrow> timeout r = TNull \<or> timeout r = TUndefined)"

text \<open>
  A timer that can still run, and the relation between responses and the request table
  that every run keeps: at most one response was sent for an id, and only if its request is
  done and has no timer that can still run.
\<close>

definition armed :: "timeout_field \<Rightarrow> bool" where
  "armed tf =
     (case tf of TTimer t \<Rightarrow> \<not> called t \<and> \<not> cleared t | TNull \<Rightarrow> False | TUndefined \<Rightarrow> False)"

definition sent_ok :: "offline \<Rightarrow> request_id \<Rightarrow> bool" where
  "sent_ok st rid =
     (res_sent (held st rid) \<le> 1
      \<and> (res_sent (held st rid) \<noteq> 0 \<longrightarrow>
            (\<exists>r. requests st rid = Some r \<and> is_done r \<and> \<not> armed (timeout r))))"

section \<open>Effects of the stages of the callback\<close>

lemmas log_defs = serverlessLog_def console_log_def printBlankLine_def

lemmas resp_defs = update_response_def send_def response_header_def

lemma same_control_refl [simp]: "same_control st st"
  by (simp add: same_control_def)

lemma same_control_trans: "same_control a b \<Longrightarrow> same_control b c \<Longrightarrow> same_control a c"
  by (simp add: same_control_def)

lemma same_control_log [simp]:
  "same_control st (serverlessLog s st')  = same_control st st'"
  "same_control st (console_log e st') = same_control st st'"
  "same_control st (printBlankLine st') = same_control st st'"
  by (simp_all add: same_control_def log_defs)

lemma same_control_resp [simp]:
  "same_control st (update_response rid f st') = same_control st st'"
  "same_control st (snd (send ev rid st')) = same_control st st'"
  "same_control st (response_header rid n v b st') = same_control st st'"
  by (simp_all add: same_control_def resp_defs)

lemma process_responseParameter_control:
  "process_responseParameter ev rid result key v st = (x, st') \<Longrightarrow> same_control st st'"
  by (auto simp: process_responseParameter_def Let_def split: if_splits sum.splits)

lemma process_responseParameters_control:
  "process_responseParameters ev rid result ps st = (x, st') \<Longrightarrow> same_control st st'"
proof (induction ps arbitrary: st)
  case Nil
  then show ?case by simp
next
  case (Cons p ps)
  obtain key v where p: "p = (key, v)" by (cases p)
  obtain y st1 where one: "process_responseParameter ev rid result key v st = (y, st1)"
    by (cases "process_responseParameter ev rid result key v st")
  have c1: "same_control st st1" by (rule process_responseParameter_control [OF one])
  show ?case
  proof (cases y)
    case None
    with Cons.prems p one have "process_responseParameters ev rid result ps st1 = (x, st')"
      by simp
    from Cons.IH [OF this] c1 show ?thesis by (rule same_control_trans [rotated])
  next
    case (Some e)
    with Cons.prems p one have "st' = st1" by simp
    with c1 show ?thesis by simp
  qed
qed

lemma response_selection_control:
  "response_selection ev ep err data st = (n, res, st') \<Longrightarrow> same_control st st'"
  by (auto simp: response_selection_def Let_def split: option.splits if_splits)

lemma process_responseTemplates_control:
  "process_responseTemplates ev ep rq ch result st = (ct, res, st') \<Longrightarrow> same_control st st'"
  by (auto simp: process_responseTemplates_def split: list.splits if_splits sum.splits option.splits)

lemma configure_response_control [simp]:
  "same_control st (configure_response ev rid err n ch ct res st') = same_control st st'"
  by (simp add: configure_response_def Let_def)

lemma respond_cases:
  assumes "respond ev ep rq rid err data st = (x, st')"
  obtains (thrown) n res st1 e where
      "response_selection ev ep err data st = (n, res, st1)"
      "process_responseParameters ev rid res (parameter_entries (chosen_response ep n)) st1
         = (Some e, st')"
      "x = Some e"
  | (sent) n res st1 st2 ct res' st3 where
      "response_selection ev ep err data st = (n, res, st1)"
      "process_responseParameters ev rid res (parameter_entries (chosen_response ep n)) st1
         = (None, st2)"
      "process_responseTemplates ev ep rq (chosen_response ep n) res st2 = (ct, res', st3)"
      "send ev rid (configure_response ev rid err n (chosen_response ep n) ct res' st3)
         = (x, st')"
  using assms
  by (auto simp: respond_def Let_def split: prod.splits option.splits)

lemma respond_control:
  assumes "respond ev ep rq rid err data st = (x, st')"
  shows "same_control st st'"
  using assms
proof (cases rule: respond_cases)
  case (thrown n res st1 e)
  from response_selection_control [OF thrown(1)] process_responseParameters_control [OF thrown(2)]
  show ?thesis by (rule same_control_trans)
next
  case (sent n res st1 st2 ct res' st3)
  have "same_control st st3"
    using response_selection_control [OF sent(1)] process_responseParameters_control [OF sent(2)]
      process_responseTemplates_control [OF sent(3)]
    by (blast intro: same_control_trans)
  moreover have "st' = snd (send ev rid
      (configure_response ev rid err n (chosen_response ep n) ct res' st3))"
    by (simp add: sent(4))
  ultimately show ?thesis by simp
qed

lemma quiet_refl [simp]: "quiet rid f st st"
  by (simp add: quiet_def)

lemma quiet_trans: "quiet rid f a b \<Longrightarrow> quiet rid f b c \<Longrightarrow> quiet rid f a c"
  unfolding quiet_def
  by (elim conjE exE) (auto simp: same_control_def)

lemma quiet_serverlessLog:
  "s \<noteq> twice_warning f \<Longrightarrow> quiet rid f st st' \<Longrightarrow> quiet rid f st (serverlessLog s st')"
  unfolding quiet_def by (auto simp: serverlessLog_def same_control_def)

lemma quiet_console:
  "e \<noteq> SLog (twice_warning f) \<Longrightarrow> quiet rid f st st' \<Longrightarrow> quiet rid f st (console_log e st')"
  unfolding quiet_def by (auto simp: console_log_def same_control_def)

lemma quiet_blank: "quiet rid f st st' \<Longrightarrow> quiet rid f st (printBlankLine st')"
  unfolding printBlankLine_def by (rule quiet_console) simp_all

lemma quiet_header:
  "quiet rid f st st' \<Longrightarrow> quiet rid f st (response_header rid n v b st')"
  unfolding quiet_def by (auto simp: response_header_def update_response_def same_control_def)

lemmas message_defs = parameter_warning_def right_hand_warning_def left_hand_warning_def
  template_error_message_def no_statusCode_warning_def twice_warning_def

lemma process_responseParameter_quiet:
  "process_responseParameter ev rid result key v st = (x, st') \<Longrightarrow> quiet rid f st st'"
  by (auto simp: process_responseParameter_def Let_def message_defs
      split: if_splits sum.splits
      intro!: quiet_header quiet_serverlessLog quiet_blank)

lemma process_responseParameters_quiet:
  "process_responseParameters ev rid result ps st = (x, st') \<Longrightarrow> quiet rid f st st'"
proof (induction ps arbitrary: st)
  case Nil
  then show ?case by simp
next
  case (Cons p ps)
  obtain key v where p: "p = (key, v)" by (cases p)
  obtain y st1 where one: "process_responseParameter ev rid result key v st = (y, st1)"
    by (cases "process_responseParameter ev rid result key v st")
  have q1: "quiet rid f st st1" by (rule process_responseParameter_quiet [OF one])
  show ?case
  proof (cases y)
    case None
    with Cons.prems p one have "process_responseParameters ev rid result ps st1 = (x, st')"
      by simp
    from q1 Cons.IH [OF this] show ?thesis by (rule quiet_trans)
  next
    case (Some e)
    with Cons.prems p one have "st' = st1" by simp
    with q1 show ?thesis by simp
  qed
qed

lemma response_selection_quiet:
  "response_selection ev ep err data st = (n, res, st') \<Longrightarrow> quiet rid f st st'"
  by (auto simp: response_selection_def Let_def message_defs
      split: option.splits if_splits
      intro!: quiet_serverlessLog quiet_console)

lemma process_responseTemplates_quiet:
  "process_responseTemplates ev ep rq ch result st = (ct, res, st') \<Longrightarrow> quiet rid f st st'"
  by (auto simp: process_responseTemplates_def message_defs
      split: list.splits if_splits sum.splits option.splits
      intro!: quiet_serverlessLog quiet_console)

lemma configure_response_quiet:
  "quiet rid f st (configure_response ev rid err n ch ct res st)"
  by (auto simp: quiet_def configure_response_def Let_def resp_defs log_defs
      same_control_def message_defs)

lemma send_effect:
  assumes "send ev rid st = (x, st')"
  shows "(x = None \<longrightarrow> sends_once rid f st st')
       \<and> (x \<noteq> None \<longrightarrow> x = Some (send_error ev) \<and> res_sent (held st rid) \<noteq> 0 \<and> st' = st)"
  using assms
  by (auto simp: send_def sends_once_def update_response_def same_control_def
      split: if_splits)

lemma quiet_sends_once: "quiet rid f a b \<Longrightarrow> sends_once rid f b c \<Longrightarrow> sends_once rid f a c"
  unfolding quiet_def sends_once_def
  by (elim conjE exE) (auto simp: same_control_def)

lemma respond_effect:
  assumes "respond ev ep rq rid err data st = (x, st')"
  shows "(x = None \<longrightarrow> sends_once rid f st st') \<and> (x \<noteq> None \<longrightarrow> quiet rid f st st')"
  using assms
proof (cases rule: respond_cases)
  case (thrown n res st1 e)
  from response_selection_quiet [OF thrown(1)] process_responseParameters_quiet [OF thrown(2)]
  have "quiet rid f st st'" by (rule quiet_trans)
  with thrown(3) show ?thesis by simp
next
  case (sent n res st1 st2 ct res' st3)
  have "quiet rid f st st3"
    using response_selection_quiet [OF sent(1)] process_responseParameters_quiet [OF sent(2)]
      process_responseTemplates_quiet [OF sent(3)]
    by (blast intro: quiet_trans)
  from this configure_response_quiet
  have q: "quiet rid f st (configure_response ev rid err n (chosen_response ep n) ct res' st3)"
    by (rule quiet_trans)
  note se = send_effect [OF sent(4), of f]
  show ?thesis
  proof (cases x)
    case None
    with se q show ?thesis by (auto intro: quiet_sends_once)
  next
    case (Some e)
    with se q show ?thesis by auto
  qed
qed

section \<open>Route registration\<close>

lemma createRoutes_error:
  "route_fullPath st prefix (ev_path e) = Inl err \<Longrightarrow> e \<in> set es \<Longrightarrow>
   \<exists>err'. createRoutes st prefix es table = Inl err'"
proof (induction es arbitrary: table)
  case Nil
  then show ?case by simp
next
  case (Cons x xs)
  show ?case
  proof (cases "route_fullPath st prefix (ev_path x)")
    case (Inl a)
    then show ?thesis by simp
  next
    case (Inr p)
    with Cons.prems have "e \<in> set xs" by auto
    from Cons.IH [OF Cons.prems(1) this] Inr show ?thesis by simp
  qed
qed

text \<open>
  C10. When the full path of an endpoint is not \<open>/\<close> and ends with a slash, computing the
  route path raises the TypeError of \<^verbatim>\<open>path.slice\<close> instead of giving the path without its
  last character, and registration of the routes ends with an exception.
\<close>

theorem C10_trailing_slash_throws:
  assumes "untrimmed_fullPath prefix (ev_path e) \<noteq> ''/''"
    and "endsWith (untrimmed_fullPath prefix (ev_path e)) ''/''"
    and "e \<in> set es"
  shows "route_fullPath st prefix (ev_path e) = Inl (path_slice_error st)
       \<and> route_fullPath st prefix (ev_path e)
           \<noteq> Inr (butlast (untrimmed_fullPath prefix (ev_path e)))
       \<and> (\<exists>err. createRoutes st prefix es [] = Inl err)"
proof -
  have a: "route_fullPath st prefix (ev_path e) = Inl (path_slice_error st)"
    using assms(1,2) by (simp add: route_fullPath_def)
  from createRoutes_error [OF a assms(3)] a show ?thesis by simp
qed

theorem C10_witness:
  "untrimmed_fullPath (setOptions_prefix None) ''users/'' = ''/users/''
   \<and> route_fullPath ''at _createRoutes'' (setOptions_prefix None) ''users/''
       = Inl (path_slice_error ''at _createRoutes'')
   \<and> (\<exists>err. createRoutes ''at _createRoutes'' (setOptions_prefix None)
         [\<lparr>ev_method = ''GET'', ev_path = ''hello''\<rparr>,
          \<lparr>ev_method = ''GET'', ev_path = ''users/''\<rparr>] [] = Inl err)"
  using C10_trailing_slash_throws
    [of "setOptions_prefix None" "\<lparr>ev_method = ''GET'', ev_path = ''users/''\<rparr>"
        "[\<lparr>ev_method = ''GET'', ev_path = ''hello''\<rparr>,
          \<lparr>ev_method = ''GET'', ev_path = ''users/''\<rparr>]" "''at _createRoutes''"]
  by (simp add: untrimmed_fullPath_def setOptions_prefix_def startsWith_def endsWith_def)

section \<open>Response selection\<close>

lemma scan_responses_first_match:
  "scan_responses ev m es = first_match_selection ev m es"
  by (induction ev m es rule: scan_responses.induct)
     (simp_all add: first_match_selection_def)

lemma js_entries_declared:
  assumes "\<forall>p \<in> set rs. \<not> is_array_index (fst p)"
  shows "js_entries rs = rs"
proof -
  have a: "filter (\<lambda>p. is_array_index (fst p)) rs = []"
    using assms by (auto simp: filter_empty_conv)
  have b: "filter (\<lambda>p. \<not> is_array_index (fst p)) rs = rs"
    using assms by (auto simp: filter_id_conv)
  show ?thesis by (simp add: js_entries_def a b)
qed

lemma first_match_default:
  assumes "\<forall>(k, r) \<in> set es. k = ''default'' \<or> \<not> rule_matches ev m k r"
  shows "first_match_selection ev m es = ''default''"
proof -
  have "find (\<lambda>(key, rule). key \<noteq> ''default'' \<and> rule_matches ev m key rule) es = None"
    using assms by (auto simp: find_None_iff)
  then show ?thesis by (simp add: first_match_selection_def)
qed

text \<open>
  C1 (as amended). For a failure, the rules are scanned in the enumeration order of the
  object \<^verbatim>\<open>endpoint.responses\<close> (array-index names first in ascending numeric order, then
  the other names as declared), "default" is skipped, the first rule whose anchored pattern
  matches the error message is chosen and "default" when none matches; the result becomes
  the structured error value. When no rule name is an array index the enumeration order is
  the declaration order.
\<close>

theorem C1_selection_order:
  assumes "truthy_err (Some e)"
  shows "fst (response_selection ev ep (Some e) data st)
           = first_match_selection ev (errorMessage_of e) (response_entries ep)
       \<and> fst (snd (response_selection ev ep (Some e) data st)) = failure_result e
       \<and> ((\<forall>(k, r) \<in> set (response_entries ep).
              k = ''default'' \<or> \<not> rule_matches ev (errorMessage_of e) k r)
            \<longrightarrow> fst (response_selection ev ep (Some e) data st) = ''default'')
       \<and> (responses ep = Some rs \<and> (\<forall>k \<in> set (map fst rs). \<not> is_array_index k)
            \<longrightarrow> response_entries ep = rs)"
proof -
  have name: "fst (response_selection ev ep (Some e) data st)
           = first_match_selection ev (errorMessage_of e) (response_entries ep)"
    using assms
    by (simp add: response_selection_def Let_def scan_responses_first_match
        split: option.splits)
  have res: "fst (snd (response_selection ev ep (Some e) data st)) = failure_result e"
    using assms by (simp add: response_selection_def Let_def split: option.splits)
  have dflt: "(\<forall>(k, r) \<in> set (response_entries ep).
              k = ''default'' \<or> \<not> rule_matches ev (errorMessage_of e) k r)
            \<longrightarrow> fst (response_selection ev ep (Some e) data st) = ''default''"
    using name first_match_default by simp
  have decl: "responses ep = Some rs \<and> (\<forall>k \<in> set (map fst rs). \<not> is_array_index k)
            \<longrightarrow> response_entries ep = rs"
    by (auto simp: response_entries_def intro: js_entries_declared)
  from name res dflt decl show ?thesis by blast
qed

lemmas entry_defs = js_entries_def is_array_index_def is_digit_def parse_nat_def
  digit_value_def

lemmas example_defs = example_env_def example_endpoint_def example_request_def plain_rule_def
  pattern_rule_def pending_arrival_def parameters_endpoint_def templates_endpoint_def
  complete_then_throw_def hi_result_def

theorem C1_witness:
  "truthy_err (Some (StringValue ''Not Found: id=5''))
   \<and> fst (response_selection example_env
        (example_endpoint\<lparr>responses :=
           Some [(''default'', plain_rule), (''NotFound'', pattern_rule ''Not Found.*'')]\<rparr>)
        (Some (StringValue ''Not Found: id=5'')) JNull initial) = ''NotFound''
   \<and> fst (snd (response_selection example_env
        (example_endpoint\<lparr>responses :=
           Some [(''default'', plain_rule), (''NotFound'', pattern_rule ''Not Found.*'')]\<rparr>)
        (Some (StringValue ''Not Found: id=5'')) JNull initial))
       = JObj [(''errorMessage'', JStr ''Not Found: id=5''), (''errorType'', JStr ''String''),
               (''stackTrace'', JNull)]
   \<and> response_entries (example_endpoint\<lparr>responses :=
           Some [(''default'', plain_rule), (''NotFound'', pattern_rule ''Not Found.*'')]\<rparr>)
       = [(''default'', plain_rule), (''NotFound'', pattern_rule ''Not Found.*'')]
   \<and> truthy_err (Some (StringValue ''Other''))
   \<and> \<not> rule_matches example_env ''Other'' ''NotFound'' (pattern_rule ''Not Found.*'')
   \<and> fst (response_selection example_env
        (example_endpoint\<lparr>responses :=
           Some [(''default'', plain_rule), (''NotFound'', pattern_rule ''Not Found.*'')]\<rparr>)
        (Some (StringValue ''Other'')) JNull initial) = ''default''"
proof -
  let ?rs = "[(''default'', plain_rule), (''NotFound'', pattern_rule ''Not Found.*'')]"
  let ?ep = "example_endpoint\<lparr>responses := Some ?rs\<rparr>"
  have t1: "truthy_err (Some (StringValue ''Not Found: id=5''))" by simp
  have t2: "truthy_err (Some (StringValue ''Other''))" by simp
  have plain: "\<forall>k \<in> set (map fst ?rs). \<not> is_array_index k"
    by (simp add: entry_defs)
  have entries: "response_entries ?ep = ?rs"
    using C1_selection_order [OF t1, of example_env ?ep JNull initial ?rs] plain
    by (simp add: example_endpoint_def)
  have nomatch': "\<forall>(k, r) \<in> set (response_entries ?ep).
          k = ''default'' \<or> \<not> rule_matches example_env ''Other'' k r"
    unfolding entries
    by (simp add: rule_matches_def rule_pattern_def pattern_rule_def plain_rule_def
        example_env_def small_regexp_def)
  then have nomatch: "\<forall>(k, r) \<in> set (response_entries ?ep).
          k = ''default''
          \<or> \<not> rule_matches example_env (errorMessage_of (StringValue ''Other'')) k r"
    by simp
  have other: "fst (response_selection example_env ?ep (Some (StringValue ''Other'')) JNull
                  initial) = ''default''"
    by (rule C1_selection_order [OF t2, of example_env ?ep JNull initial ?rs,
          THEN conjunct2, THEN conjunct2, THEN conjunct1, THEN mp, OF nomatch])
  have found: "fst (response_selection example_env ?ep (Some (StringValue ''Not Found: id=5''))
                  JNull initial) = ''NotFound''
     \<and> fst (snd (response_selection example_env ?ep (Some (StringValue ''Not Found: id=5''))
                  JNull initial))
       = JObj [(''errorMessage'', JStr ''Not Found: id=5''), (''errorType'', JStr ''String''),
               (''stackTrace'', JNull)]"
    using C1_selection_order [OF t1, of example_env ?ep JNull initial ?rs]
    unfolding entries
    by (simp add: first_match_selection_def rule_matches_def rule_pattern_def
        pattern_rule_def plain_rule_def example_env_def small_regexp_def failure_result_def
        stackTrace_json_def getArrayStackTrace_def)
  have nf: "\<not> rule_matches example_env ''Other'' ''NotFound'' (pattern_rule ''Not Found.*'')"
    using nomatch' unfolding entries by simp
  show ?thesis
    by (intro conjI t1 t2 entries nf other found [THEN conjunct1] found [THEN conjunct2])
qed

theorem C1_counterexample:
  "fst (response_selection example_env
        (example_endpoint\<lparr>responses :=
           Some [(''default'', plain_rule), (''500'', pattern_rule ''.*''),
                 (''400'', pattern_rule ''Bad.*'')]\<rparr>)
        (Some (StringValue ''Bad input'')) JNull initial) = ''400''
   \<and> first_match_selection example_env ''Bad input''
        [(''default'', plain_rule), (''500'', pattern_rule ''.*''),
         (''400'', pattern_rule ''Bad.*'')] = ''500''"
  by (simp add: response_selection_def Let_def first_match_selection_def response_entries_def
      entry_defs example_defs rule_matches_def rule_pattern_def small_regexp_def
      getArrayStackTrace_def)
section \<open>Effects of a completion on the tables\<close>

lemma clear_timer_idem [simp]: "clear_timer (clear_timer t) = clear_timer t"
  by (cases t) simp_all

lemma timer_called_clear [simp]: "timer_called (clear_timer t) = timer_called t"
  by (cases t) simp_all

lemma timer_kept_refl [simp]: "timer_kept r r"
  by (simp add: timer_kept_def)

lemma timer_kept_trans: "timer_kept a b \<Longrightarrow> timer_kept b c \<Longrightarrow> timer_kept a c"
  by (auto simp: timer_kept_def)

lemma timer_kept_called: "timer_kept r r' \<Longrightarrow> timer_called (timeout r') = timer_called (timeout r)"
  by (auto simp: timer_kept_def)

lemma handles_refl [simp]: "handles rid st st"
  by (simp add: handles_def option.rel_refl)

lemma handles_trans:
  assumes "handles rid a b" and "handles rid b c"
  shows "handles rid a c"
proof -
  have "rel_option timer_kept (requests a rid) (requests c rid)"
    using assms
    by (cases "requests a rid"; cases "requests b rid"; cases "requests c rid")
       (auto simp: handles_def intro: timer_kept_trans)
  with assms show ?thesis by (simp add: handles_def)
qed

lemma same_control_handles:
  "same_control st st' \<Longrightarrow> \<forall>x. x \<noteq> rid \<longrightarrow> held st' x = held st x \<Longrightarrow> handles rid st st'"
  by (simp add: handles_def same_control_def option.rel_refl)

lemma quiet_handles: "quiet rid f st st' \<Longrightarrow> handles rid st st'"
  by (simp add: quiet_def same_control_handles)

lemma sends_once_handles: "sends_once rid f st st' \<Longrightarrow> handles rid st st'"
  by (simp add: sends_once_def same_control_handles)

lemma requests_update_request:
  "requests (update_request rid g st) =
     (case requests st rid of None \<Rightarrow> requests st | Some r \<Rightarrow> (requests st)(rid \<mapsto> g r))"
  by (simp add: update_request_def split: option.splits)

lemma update_request_other [simp]:
  "held (update_request rid g st) = held st"
  "logs (update_request rid g st) = logs st"
  "currentRequestId (update_request rid g st) = currentRequestId st"
  "contexts (update_request rid g st) = contexts st"
  "firstCall (update_request rid g st) = firstCall st"
  by (simp_all add: update_request_def split: option.splits)

lemma handles_update_request:
  "\<forall>r. timer_kept r (g r) \<Longrightarrow> handles rid st (update_request rid g st)"
  by (auto simp: handles_def requests_update_request split: option.splits)

lemma handles_log:
  "handles rid st st' \<Longrightarrow> handles rid st (serverlessLog s st')"
  "handles rid st st' \<Longrightarrow> handles rid st (console_log e st')"
  "handles rid st st' \<Longrightarrow> handles rid st (printBlankLine st')"
  by (simp_all add: handles_def log_defs)

lemma handles_resp:
  "handles rid st st' \<Longrightarrow> handles rid st (update_response rid g st')"
  "handles rid st st' \<Longrightarrow> handles rid st (snd (send ev rid st'))"
  by (simp_all add: handles_def resp_defs)

lemma respond_handles:
  "respond ev ep rq rid err data st = (x, st') \<Longrightarrow> handles rid st st'"
  using respond_effect [of ev ep rq rid err data st x st' "[]"]
  by (cases x) (auto intro: quiet_handles sends_once_handles)

lemma clearTimeout'_cases:
  assumes "clearTimeout' ev rid st = (x, st1)"
  obtains (missing) "requests st rid = None" "x = Inl (missing_request ev ''timeout'')" "st1 = st"
  | (called) r where "requests st rid = Some r" "timer_called (timeout r)" "x = Inr True" "st1 = st"
  | (clear) r where "requests st rid = Some r" "\<not> timer_called (timeout r)" "x = Inr False"
      "st1 = update_request rid (\<lambda>r. r\<lparr>timeout := clear_timer (timeout r)\<rparr>) st"
  using assms by (auto simp: clearTimeout'_def split: option.splits if_splits)

lemma callback_cases:
  assumes "callback ev ep rq rid err data st = (x, st')"
  obtains (missing) "requests st rid = None" "x \<noteq> None" "st' = st"
  | (called) r where "requests st rid = Some r" "timer_called (timeout r)" "x = None" "st' = st"
  | (twice) r where "requests st rid = Some r" "\<not> timer_called (timeout r)" "is_done r"
      "x = None"
      "st' = serverlessLog (twice_warning (funName ep))
               (printBlankLine (update_request rid (\<lambda>r. r\<lparr>timeout := clear_timer (timeout r)\<rparr>) st))"
  | (first) r where "requests st rid = Some r" "\<not> timer_called (timeout r)" "\<not> is_done r"
      "respond ev ep rq rid err data
         (update_request rid (\<lambda>r. r\<lparr>is_done := True\<rparr>)
           (update_request rid (\<lambda>r. r\<lparr>timeout := clear_timer (timeout r)\<rparr>) st)) = (x, st')"
proof (cases "requests st rid")
  case None
  with assms have "x \<noteq> None" "st' = st"
    by (auto simp: callback_def clearTimeout'_def)
  with None show ?thesis by (rule missing)
next
  case (Some r)
  show ?thesis
  proof (cases "timer_called (timeout r)")
    case True
    with assms Some have "x = None" "st' = st"
      by (auto simp: callback_def clearTimeout'_def)
    with Some True show ?thesis by (rule called)
  next
    case False
    show ?thesis
    proof (cases "is_done r")
      case True
      with assms Some False show ?thesis
        by (intro twice [of r])
           (auto simp: callback_def clearTimeout'_def requests_update_request)
    next
      case nd: False
      with assms Some False show ?thesis
        by (intro first [of r])
           (auto simp: callback_def clearTimeout'_def requests_update_request)
    qed
  qed
qed

lemma callback_handles:
  assumes "callback ev ep rq rid err data st = (x, st')"
  shows "handles rid st st'"
  using assms
proof (cases rule: callback_cases)
  case missing
  then show ?thesis by simp
next
  case (called r)
  then show ?thesis by simp
next
  case (twice r)
  have "handles rid st (update_request rid (\<lambda>r. r\<lparr>timeout := clear_timer (timeout r)\<rparr>) st)"
    by (rule handles_update_request) (simp add: timer_kept_def)
  then show ?thesis unfolding twice(5) by (intro handles_log)
next
  case (first r)
  have a: "handles rid st (update_request rid (\<lambda>r. r\<lparr>timeout := clear_timer (timeout r)\<rparr>) st)"
    by (rule handles_update_request) (simp add: timer_kept_def)
  have b: "handles rid (update_request rid (\<lambda>r. r\<lparr>timeout := clear_timer (timeout r)\<rparr>) st)
             (update_request rid (\<lambda>r. r\<lparr>is_done := True\<rparr>)
               (update_request rid (\<lambda>r. r\<lparr>timeout := clear_timer (timeout r)\<rparr>) st))"
    by (rule handles_update_request) (simp add: timer_kept_def)
  from handles_trans [OF a b] respond_handles [OF first(4)] show ?thesis
    by (rule handles_trans)
qed

lemma reply500_cases:
  assumes "reply500 ev rid message err st = (x, st')"
  obtains (missing) "requests st rid = None" "x \<noteq> None" "st' = st"
  | (called) r where "requests st rid = Some r" "timer_called (timeout r)" "x = None" "st' = st"
  | (sent) r stackTrace where "requests st rid = Some r" "\<not> timer_called (timeout r)"
      "send ev rid
         (serverlessLog ''Replying error in handler''
           (update_response rid
              (\<lambda>r. r\<lparr>res_statusCode := 200, res_source := error_body message err\<rparr>)
              (console_log stackTrace
                (serverlessLog message
                  (update_request rid (\<lambda>r. r\<lparr>is_done := True\<rparr>)
                    (update_request rid (\<lambda>r. r\<lparr>timeout := clear_timer (timeout r)\<rparr>) st))))))
         = (x, st')"
  using assms
  by (cases "requests st rid")
     (auto simp: reply500_def clearTimeout'_def Let_def split: if_splits)

lemma reply500_handles:
  assumes "reply500 ev rid message err st = (x, st')"
  shows "handles rid st st'"
  using assms
proof (cases rule: reply500_cases)
  case missing
  then show ?thesis by simp
next
  case (called r)
  then show ?thesis by simp
next
  case (sent r stackTrace)
  have a: "handles rid st (update_request rid (\<lambda>r. r\<lparr>timeout := clear_timer (timeout r)\<rparr>) st)"
    by (rule handles_update_request) (simp add: timer_kept_def)
  have b: "handles rid (update_request rid (\<lambda>r. r\<lparr>timeout := clear_timer (timeout r)\<rparr>) st)
             (update_request rid (\<lambda>r. r\<lparr>is_done := True\<rparr>)
               (update_request rid (\<lambda>r. r\<lparr>timeout := clear_timer (timeout r)\<rparr>) st))"
    by (rule handles_update_request) (simp add: timer_kept_def)
  have "st' = snd (send ev rid
         (serverlessLog ''Replying error in handler''
           (update_response rid
              (\<lambda>r. r\<lparr>res_statusCode := 200, res_source := error_body message err\<rparr>)
              (console_log stackTrace
                (serverlessLog message
                  (update_request rid (\<lambda>r. r\<lparr>is_done := True\<rparr>)
                    (update_request rid (\<lambda>r. r\<lparr>timeout := clear_timer (timeout r)\<rparr>) st)))))))"
    by (simp add: sent(3))
  with handles_trans [OF a b] show ?thesis
    by (auto intro!: handles_log handles_resp)
qed

lemma run_sync_calls_handles:
  "run_sync_calls ev ep rq rid calls st = (x, st') \<Longrightarrow> handles rid st st'"
proof (induction calls arbitrary: st)
  case Nil
  then show ?case by simp
next
  case (Cons c calls)
  obtain err data where c: "c = (err, data)" by (cases c)
  obtain y st1 where one: "callback ev ep rq rid err data st = (y, st1)"
    by (cases "callback ev ep rq rid err data st")
  have h1: "handles rid st st1" by (rule callback_handles [OF one])
  show ?case
  proof (cases y)
    case None
    with Cons.prems c one have "run_sync_calls ev ep rq rid calls st1 = (x, st')" by simp
    from h1 Cons.IH [OF this] show ?thesis by (rule handles_trans)
  next
    case (Some e)
    with Cons.prems c one have "st' = st1" by simp
    with h1 show ?thesis by simp
  qed
qed
section \<open>Completion after a terminal state\<close>

lemma callback_first_effect:
  assumes cb: "callback ev ep rq rid err data st = (None, st1)"
    and r: "requests st rid = Some r" and nd: "\<not> is_done r" and nc: "\<not> timer_called (timeout r)"
  shows "requests st1 rid = Some (r\<lparr>timeout := clear_timer (timeout r), is_done := True\<rparr>)
       \<and> res_sent (held st1 rid) = res_sent (held st rid) + 1
       \<and> (\<exists>lg. logs st1 = logs st @ lg \<and> SLog (twice_warning f) \<notin> set lg)"
proof -
  let ?u = "update_request rid (\<lambda>r. r\<lparr>is_done := True\<rparr>)
              (update_request rid (\<lambda>r. r\<lparr>timeout := clear_timer (timeout r)\<rparr>) st)"
  from cb r nd nc have resp: "respond ev ep rq rid err data ?u = (None, st1)"
    by (cases rule: callback_cases) auto
  from respond_effect [OF resp, of f] have so: "sends_once rid f ?u st1" by simp
  have ru: "requests ?u rid = Some (r\<lparr>timeout := clear_timer (timeout r), is_done := True\<rparr>)"
    using r by (simp add: requests_update_request)
  from so ru have "requests st1 rid = Some (r\<lparr>timeout := clear_timer (timeout r), is_done := True\<rparr>)"
    by (simp add: sends_once_def same_control_def)
  moreover from so have "res_sent (held st1 rid) = res_sent (held st rid) + 1"
    by (simp add: sends_once_def)
  moreover from so have "\<exists>lg. logs st1 = logs st @ lg \<and> SLog (twice_warning f) \<notin> set lg"
    by (simp add: sends_once_def)
  ultimately show ?thesis by blast
qed

lemma callback_done_effect:
  assumes r: "requests st rid = Some r" and d: "is_done r"
  shows "callback ev ep rq rid err data st =
     (None, if timer_called (timeout r) then st
            else serverlessLog (twice_warning (funName ep))
                   (printBlankLine
                     (update_request rid (\<lambda>r. r\<lparr>timeout := clear_timer (timeout r)\<rparr>) st)))"
  using r d by (simp add: callback_def clearTimeout'_def requests_update_request)

text \<open>
  C3 (as amended). A completion call for a request that is already done never sends and
  never changes a response. When the request's timer has run (the request timed out) the
  call changes nothing at all and logs no warning; otherwise it logs a blank line and the
  one-line warning. When a pending request is completed twice and the first call returns
  without an exception, one response is sent and the warning is logged once.
\<close>

theorem C3_further_completion:
  assumes "requests st rid = Some r"
  shows "(is_done r \<longrightarrow>
            fst (callback ev ep rq rid err data st) = None
          \<and> held (snd (callback ev ep rq rid err data st)) = held st
          \<and> request_done (snd (callback ev ep rq rid err data st)) rid
          \<and> (timer_called (timeout r) \<longrightarrow> snd (callback ev ep rq rid err data st) = st)
          \<and> (\<not> timer_called (timeout r) \<longrightarrow>
                logs (snd (callback ev ep rq rid err data st))
                  = logs st @ [Console [], SLog (twice_warning (funName ep))]))
       \<and> (\<not> is_done r \<and> \<not> timer_called (timeout r)
            \<and> callback ev ep rq rid err data st = (None, st1) \<longrightarrow>
            fst (callback ev ep rq rid err2 data2 st1) = None
          \<and> res_sent (held (snd (callback ev ep rq rid err2 data2 st1)) rid)
              = res_sent (held st rid) + 1
          \<and> count_list (logs (snd (callback ev ep rq rid err2 data2 st1)))
                (SLog (twice_warning (funName ep)))
              = count_list (logs st) (SLog (twice_warning (funName ep))) + 1)"
proof (intro conjI impI)
  assume d: "is_done r"
  note eff = callback_done_effect [OF assms d, of ev ep rq err data]
  show "fst (callback ev ep rq rid err data st) = None"
    by (simp add: eff)
  show "held (snd (callback ev ep rq rid err data st)) = held st"
    by (simp add: eff log_defs)
  show "request_done (snd (callback ev ep rq rid err data st)) rid"
    using assms d by (simp add: eff log_defs request_done_def requests_update_request)
  show "snd (callback ev ep rq rid err data st) = st" if "timer_called (timeout r)"
    using that by (simp add: eff)
  show "logs (snd (callback ev ep rq rid err data st))
          = logs st @ [Console [], SLog (twice_warning (funName ep))]"
    if "\<not> timer_called (timeout r)"
    using that by (simp add: eff log_defs)
next
  assume a: "\<not> is_done r \<and> \<not> timer_called (timeout r)
               \<and> callback ev ep rq rid err data st = (None, st1)"
  then have nd: "\<not> is_done r" and nc: "\<not> timer_called (timeout r)"
    and cb: "callback ev ep rq rid err data st = (None, st1)" by simp_all
  let ?r1 = "r\<lparr>timeout := clear_timer (timeout r), is_done := True\<rparr>"
  from callback_first_effect [OF cb assms nd nc, of "funName ep"]
  obtain lg where r1: "requests st1 rid = Some ?r1"
    and sent: "res_sent (held st1 rid) = res_sent (held st rid) + 1"
    and lg: "logs st1 = logs st @ lg" "SLog (twice_warning (funName ep)) \<notin> set lg"
    by blast
  have d1: "is_done ?r1" by simp
  have nc1: "\<not> timer_called (timeout ?r1)" using nc by simp
  note eff = callback_done_effect [OF r1 d1, of ev ep rq err2 data2]
  show "fst (callback ev ep rq rid err2 data2 st1) = None"
    by (simp add: eff)
  show "res_sent (held (snd (callback ev ep rq rid err2 data2 st1)) rid)
          = res_sent (held st rid) + 1"
    using nc sent by (simp add: eff log_defs)
  show "count_list (logs (snd (callback ev ep rq rid err2 data2 st1)))
                (SLog (twice_warning (funName ep)))
              = count_list (logs st) (SLog (twice_warning (funName ep))) + 1"
    using nc lg by (simp add: eff log_defs)
qed
lemmas model_defs = route_handler_def begin_request_def arm_timer_def call_handler_def
  callback_def respond_def reply500_def replyTimeout_def
  timer_fires_def clearTimeout'_def response_selection_def process_responseTemplates_def
  configure_response_def configured_statusCode_def chosen_response_def parameter_entries_def
  template_entries_def get_prop_def request_done_def new_timer_def held_response_def
  initial_def update_request_def

lemma arrived_requests:
  "requests arrived_state ''A'' = Some \<lparr>is_done = False, timeout = TTimer \<lparr>called = False, cleared = False, delay = 1000\<rparr>\<rparr>"
  by (simp add: arrived_state_def model_defs example_defs log_defs resp_defs Let_def entry_defs)

lemma arrived_step:
  "route_handler example_env example_endpoint ''A'' pending_arrival initial = (None, arrived_state)"
  by (simp add: arrived_state_def model_defs example_defs log_defs resp_defs Let_def entry_defs)

lemma arrived_contexts:
  "contexts arrived_state ''A'' = Some example_request"
  by (simp add: arrived_state_def model_defs example_defs log_defs resp_defs Let_def entry_defs)

lemma timed_out_requests:
  "requests timed_out_state ''A'' = Some \<lparr>is_done = True, timeout = TTimer \<lparr>called = True, cleared = False, delay = 1000\<rparr>\<rparr>"
  by (simp add: timed_out_state_def model_defs example_defs log_defs resp_defs Let_def entry_defs)

lemma timed_out_response:
  "res_statusCode (held timed_out_state ''A'') = 503 \<and> res_sent (held timed_out_state ''A'') = 1"
  by (simp add: timed_out_state_def model_defs example_defs log_defs resp_defs Let_def entry_defs)


lemmas eval_defs = model_defs example_defs log_defs resp_defs Let_def entry_defs

lemma arrived_response:
  "res_sent (held arrived_state ''A'') = 0
   \<and> count_list (logs arrived_state) (SLog (twice_warning ''hello'')) = 0"
  by (simp add: arrived_state_def eval_defs message_defs route_line_def)

lemma completed_callback:
  "callback example_env example_endpoint example_request ''A'' None hi_result arrived_state
     = (None, completed_state)"
proof -
  have f: "fst (callback example_env example_endpoint example_request ''A'' None hi_result
                  arrived_state) = None"
    by (simp add: arrived_state_def eval_defs)
  have "completed_state
          = snd (run example_env example_endpoint [Completion ''A'' None hi_result] arrived_state)"
    by (simp add: completed_state_def arrived_step)
  also have "\<dots> = snd (callback example_env example_endpoint example_request ''A'' None
                        hi_result arrived_state)"
    using f
    by (cases "callback example_env example_endpoint example_request ''A'' None hi_result
                 arrived_state")
       (simp add: arrived_contexts)
  finally show ?thesis using f by (simp add: prod_eq_iff)
qed

lemma completed_requests:
  "requests completed_state ''A''
     = Some \<lparr>is_done = True, timeout = TTimer \<lparr>called = False, cleared = True, delay = 1000\<rparr>\<rparr>"
  by (simp add: completed_state_def eval_defs)

theorem C3_witness:
  "requests completed_state ''A''
     = Some \<lparr>is_done = True, timeout = TTimer \<lparr>called = False, cleared = True, delay = 1000\<rparr>\<rparr>
   \<and> fst (callback example_env example_endpoint example_request ''A'' None hi_result
            completed_state) = None
   \<and> held (snd (callback example_env example_endpoint example_request ''A'' None hi_result
            completed_state)) = held completed_state
   \<and> logs (snd (callback example_env example_endpoint example_request ''A'' None hi_result
            completed_state))
       = logs completed_state @ [Console [], SLog (twice_warning ''hello'')]
   \<and> requests arrived_state ''A''
       = Some \<lparr>is_done = False, timeout = TTimer \<lparr>called = False, cleared = False, delay = 1000\<rparr>\<rparr>
   \<and> callback example_env example_endpoint example_request ''A'' None hi_result arrived_state
       = (None, completed_state)
   \<and> res_sent (held (snd (callback example_env example_endpoint example_request ''A'' None
            hi_result completed_state)) ''A'') = 1
   \<and> count_list (logs (snd (callback example_env example_endpoint example_request ''A'' None
            hi_result completed_state))) (SLog (twice_warning ''hello'')) = 1"
  using C3_further_completion [OF completed_requests,
      of example_env example_endpoint example_request None hi_result]
    C3_further_completion [OF arrived_requests,
      of example_env example_endpoint example_request None hi_result completed_state
         None hi_result]
    completed_callback completed_requests arrived_requests arrived_response
  by (simp add: example_endpoint_def)

text \<open>
  After the timeout of request A, a completion call changes nothing and logs nothing: the
  log holds no double-completion warning.
\<close>

theorem C3_counterexample:
  "request_done timed_out_state ''A''
   \<and> res_statusCode (held timed_out_state ''A'') = 503
   \<and> step example_env example_endpoint (Completion ''A'' None hi_result) timed_out_state
       = (None, timed_out_state)
   \<and> SLog (twice_warning ''hello'') \<notin> set (logs timed_out_state)"
proof -
  have c: "contexts timed_out_state ''A'' = Some example_request"
    by (simp add: timed_out_state_def eval_defs)
  have l: "SLog (twice_warning ''hello'') \<notin> set (logs timed_out_state)"
    by (simp add: timed_out_state_def eval_defs message_defs route_line_def)
  have "callback example_env example_endpoint example_request ''A'' None hi_result
          timed_out_state = (None, timed_out_state)"
    using callback_done_effect [OF timed_out_requests] by simp
  with c l timed_out_requests timed_out_response show ?thesis
    by (simp add: request_done_def)
qed
section \<open>Effects of the route handler\<close>

lemma call_handler_handles:
  assumes "call_handler ev ep rq rid a st = (x, st')"
  shows "handles rid st st'"
proof -
  obtain y st1 where sync: "run_sync_calls ev ep rq rid (arr_sync_calls a) st = (y, st1)"
    by (cases "run_sync_calls ev ep rq rid (arr_sync_calls a) st")
  have h1: "handles rid st st1" by (rule run_sync_calls_handles [OF sync])
  show ?thesis
  proof (cases y)
    case (Some error)
    with assms sync have "reply500 ev rid (uncaught_message ep) error st1 = (x, st')"
      by (simp add: call_handler_def)
    from h1 reply500_handles [OF this] show ?thesis by (rule handles_trans)
  next
    case None
    show ?thesis
    proof (cases "arr_end a")
      case Returns
      with assms sync None have "st' = st1" by (simp add: call_handler_def)
      with h1 show ?thesis by simp
    next
      case ReturnsThenable
      with assms sync None have "st' = st1" by (simp add: call_handler_def)
      with h1 show ?thesis by simp
    next
      case (Throws error)
      with assms sync None have "reply500 ev rid (uncaught_message ep) error st1 = (x, st')"
        by (simp add: call_handler_def)
      from h1 reply500_handles [OF this] show ?thesis by (rule handles_trans)
    next
      case (ReturnsError e)
      show ?thesis
      proof (cases "serviceRuntime ev = ''babel'' \<and> \<not> request_done st1 rid")
        case False
        with assms sync None ReturnsError have "st' = st1"
          by (auto simp: call_handler_def)
        with h1 show ?thesis by simp
      next
        case True
        obtain z st2 where cb: "callback ev ep rq rid (Some e) JNull st1 = (z, st2)"
          by (cases "callback ev ep rq rid (Some e) JNull st1")
        have h2: "handles rid st st2"
          using h1 callback_handles [OF cb] by (rule handles_trans)
        show ?thesis
        proof (cases z)
          case None
          with assms sync \<open>y = None\<close> ReturnsError True cb have "st' = st2"
            by (simp add: call_handler_def)
          with h2 show ?thesis by simp
        next
          case (Some error)
          with assms sync \<open>y = None\<close> ReturnsError True cb
          have "reply500 ev rid (uncaught_message ep) error st2 = (x, st')"
            by (simp add: call_handler_def)
          from h2 reply500_handles [OF this] show ?thesis by (rule handles_trans)
        qed
      qed
    qed
  qed
qed

lemma begin_request_effect:
  "currentRequestId (begin_request ep rid rq st) = Some rid"
  "requests (begin_request ep rid rq st) = (requests st)(rid \<mapsto> \<lparr>is_done = False, timeout = TUndefined\<rparr>)"
  "held (begin_request ep rid rq st) = (held st)(rid := held_response)"
  "contexts (begin_request ep rid rq st) = contexts st"
  by (simp_all add: begin_request_def Let_def log_defs)

text \<open>The state in which the handler is called.\<close>

lemma armed_effect:
  fixes ev ep rid rq st
  defines "s \<equiv> arm_timer ev ep rid
                ((begin_request ep rid rq st)\<lparr>contexts := (contexts (begin_request ep rid rq st))(rid \<mapsto> rq)\<rparr>)"
  shows "currentRequestId s = Some rid"
    and "requests s = (requests st)(rid \<mapsto> \<lparr>is_done = False,
             timeout = (if noTimeout ev then TNull else TTimer (new_timer (funTimeout ep)))\<rparr>)"
    and "held s = (held st)(rid := held_response)"
  by (simp_all add: s_def arm_timer_def update_request_def begin_request_effect)

lemma route_handler_start:
  assumes "route_handler ev ep rid a st = (x, st')"
  obtains s where "handles rid s st'"
    and "currentRequestId s = Some rid"
    and "requests s = (requests st)(rid \<mapsto> \<lparr>is_done = False, timeout = first_timeout ev ep a\<rparr>)"
    and "held s = (held st)(rid := held_response)"
proof (cases "arr_load_error a")
  case (Some err)
  let ?s = "begin_request ep rid (arr_request a) st"
  from assms Some have "reply500 ev rid (load_error_message ep) err ?s = (x, st')"
    by (simp add: route_handler_def Let_def)
  from reply500_handles [OF this] show ?thesis
    by (rule that) (simp_all add: begin_request_effect first_timeout_def Some)
next
  case None
  show ?thesis
  proof (cases "arr_template_error a")
    case (Some err)
    let ?s = "begin_request ep rid (arr_request a) st"
    from assms None Some obtain m where "reply500 ev rid m err ?s = (x, st')"
      by (simp add: route_handler_def Let_def)
    from reply500_handles [OF this] show ?thesis
      by (rule that) (simp_all add: begin_request_effect first_timeout_def Some)
  next
    case nt: None
    let ?b = "begin_request ep rid (arr_request a) st"
    let ?s = "arm_timer ev ep rid (?b\<lparr>contexts := (contexts ?b)(rid \<mapsto> arr_request a)\<rparr>)"
    from assms None nt have "call_handler ev ep (arr_request a) rid a ?s = (x, st')"
      by (simp add: route_handler_def Let_def)
    from call_handler_handles [OF this] show ?thesis
      by (rule that) (simp_all add: armed_effect first_timeout_def None nt)
  qed
qed

lemma route_handler_effect:
  assumes "route_handler ev ep rid a st = (x, st')"
  shows "currentRequestId st' = Some rid
       \<and> (\<forall>k. k \<noteq> rid \<longrightarrow> requests st' k = requests st k \<and> held st' k = held st k)
       \<and> (\<exists>r'. requests st' rid = Some r'
              \<and> timer_kept \<lparr>is_done = False, timeout = first_timeout ev ep a\<rparr> r')"
proof -
  from assms obtain s where h: "handles rid s st'"
    and c: "currentRequestId s = Some rid"
    and r: "requests s = (requests st)(rid \<mapsto> \<lparr>is_done = False, timeout = first_timeout ev ep a\<rparr>)"
    and hd: "held s = (held st)(rid := held_response)"
    by (rule route_handler_start)
  from h r have "rel_option timer_kept (Some \<lparr>is_done = False, timeout = first_timeout ev ep a\<rparr>)
                   (requests st' rid)"
    by (simp add: handles_def)
  then have "\<exists>r'. requests st' rid = Some r'
              \<and> timer_kept \<lparr>is_done = False, timeout = first_timeout ev ep a\<rparr> r'"
    by (cases "requests st' rid") simp_all
  with h c r hd show ?thesis by (simp add: handles_def)
qed

section \<open>Responses are sent once, and only for done requests\<close>

lemma armed_clear [simp]: "\<not> armed (clear_timer tf)"
  by (cases tf) (simp_all add: armed_def)

lemma armed_called: "timer_called tf \<Longrightarrow> \<not> armed tf"
  by (cases tf) (simp_all add: armed_def)

lemma sent_ok_other:
  "requests st' k = requests st k \<Longrightarrow> held st' k = held st k \<Longrightarrow> sent_ok st k \<Longrightarrow> sent_ok st' k"
  by (simp add: sent_ok_def)

lemma sent_ok_closed:
  "requests st' rid = Some r' \<Longrightarrow> is_done r' \<Longrightarrow> \<not> armed (timeout r') \<Longrightarrow>
   res_sent (held st' rid) \<le> 1 \<Longrightarrow> sent_ok st' rid"
  by (simp add: sent_ok_def)

lemma sent_ok_zero: "res_sent (held st' rid) = 0 \<Longrightarrow> sent_ok st' rid"
  by (simp add: sent_ok_def)

lemma sent_ok_le: "sent_ok st rid \<Longrightarrow> res_sent (held st rid) \<le> 1"
  by (simp add: sent_ok_def)

lemma handles_sent_ok_other:
  "handles rid st st' \<Longrightarrow> k \<noteq> rid \<Longrightarrow> sent_ok st k \<Longrightarrow> sent_ok st' k"
  by (auto simp: handles_def intro: sent_ok_other)

text \<open>The state in which \<^verbatim>\<open>_reply500\<close> and the callback go on after their guards.\<close>

lemma closed_request:
  assumes "requests st rid = Some r"
  shows "requests (update_request rid (\<lambda>r. r\<lparr>is_done := True\<rparr>)
                    (update_request rid (\<lambda>r. r\<lparr>timeout := clear_timer (timeout r)\<rparr>) st)) rid
           = Some (r\<lparr>timeout := clear_timer (timeout r), is_done := True\<rparr>)"
  using assms by (simp add: requests_update_request)

lemma callback_sent_ok_self:
  assumes cb: "callback ev ep rq rid err data st = (x, st')" and ok: "sent_ok st rid"
  shows "sent_ok st' rid"
  using cb
proof (cases rule: callback_cases)
  case missing
  with ok show ?thesis by simp
next
  case (called r)
  with ok show ?thesis by simp
next
  case (twice r)
  have rq: "requests st' rid = Some (r\<lparr>timeout := clear_timer (timeout r)\<rparr>)"
    using twice(1) by (simp add: twice(5) log_defs requests_update_request)
  have h: "held st' = held st" by (simp add: twice(5) log_defs)
  from rq show ?thesis
    by (rule sent_ok_closed) (use twice(3) h sent_ok_le [OF ok] in simp_all)
next
  case (first r)
  let ?u = "update_request rid (\<lambda>r. r\<lparr>is_done := True\<rparr>)
              (update_request rid (\<lambda>r. r\<lparr>timeout := clear_timer (timeout r)\<rparr>) st)"
  have ru: "requests ?u rid = Some (r\<lparr>timeout := clear_timer (timeout r), is_done := True\<rparr>)"
    by (rule closed_request [OF first(1)])
  have hu: "held ?u = held st" by simp
  note eff = respond_effect [OF first(4), of "[]"]
  have rq: "requests st' rid = Some (r\<lparr>timeout := clear_timer (timeout r), is_done := True\<rparr>)"
    using eff ru by (cases x) (auto simp: sends_once_def quiet_def same_control_def)
  have le: "res_sent (held st' rid) \<le> 1"
    using eff hu sent_ok_le [OF ok] by (cases x) (auto simp: sends_once_def quiet_def)
  from rq show ?thesis by (rule sent_ok_closed) (use le in simp_all)
qed

lemma callback_sent_ok:
  assumes cb: "callback ev ep rq rid err data st = (x, st')" and ok: "\<forall>k. sent_ok st k"
  shows "\<forall>k. sent_ok st' k"
proof
  fix k
  show "sent_ok st' k"
  proof (cases "k = rid")
    case True
    with callback_sent_ok_self [OF cb] ok show ?thesis by simp
  next
    case False
    with handles_sent_ok_other [OF callback_handles [OF cb]] ok show ?thesis by simp
  qed
qed

lemma reply500_sent_ok_self:
  assumes rp: "reply500 ev rid message err st = (x, st')" and ok: "sent_ok st rid"
  shows "sent_ok st' rid"
  using rp
proof (cases rule: reply500_cases)
  case missing
  with ok show ?thesis by simp
next
  case (called r)
  with ok show ?thesis by simp
next
  case (sent r stackTrace)
  let ?u = "update_request rid (\<lambda>r. r\<lparr>is_done := True\<rparr>)
              (update_request rid (\<lambda>r. r\<lparr>timeout := clear_timer (timeout r)\<rparr>) st)"
  let ?s = "serverlessLog ''Replying error in handler''
           (update_response rid
              (\<lambda>r. r\<lparr>res_statusCode := 200, res_source := error_body message err\<rparr>)
              (console_log stackTrace (serverlessLog message ?u)))"
  have ru: "requests ?s rid = Some (r\<lparr>timeout := clear_timer (timeout r), is_done := True\<rparr>)"
    using closed_request [OF sent(1)] by (simp add: log_defs resp_defs)
  have hs: "res_sent (held ?s rid) = res_sent (held st rid)"
    by (simp add: log_defs resp_defs)
  note eff = send_effect [OF sent(3), of "[]"]
  have rq: "requests st' rid = Some (r\<lparr>timeout := clear_timer (timeout r), is_done := True\<rparr>)"
    using eff ru by (cases x) (auto simp: sends_once_def same_control_def)
  have le: "res_sent (held st' rid) \<le> 1"
    using eff hs sent_ok_le [OF ok] by (cases x) (auto simp: sends_once_def)
  from rq show ?thesis by (rule sent_ok_closed) (use le in simp_all)
qed

lemma reply500_sent_ok:
  assumes rp: "reply500 ev rid message err st = (x, st')" and ok: "\<forall>k. sent_ok st k"
  shows "\<forall>k. sent_ok st' k"
proof
  fix k
  show "sent_ok st' k"
  proof (cases "k = rid")
    case True
    with reply500_sent_ok_self [OF rp] ok show ?thesis by simp
  next
    case False
    with handles_sent_ok_other [OF reply500_handles [OF rp]] ok show ?thesis by simp
  qed
qed

lemma run_sync_calls_sent_ok_self:
  "run_sync_calls ev ep rq rid calls st = (x, st') \<Longrightarrow> sent_ok st rid \<Longrightarrow> sent_ok st' rid"
proof (induction calls arbitrary: st)
  case Nil
  then show ?case by simp
next
  case (Cons c calls)
  obtain err data where c: "c = (err, data)" by (cases c)
  obtain y st1 where one: "callback ev ep rq rid err data st = (y, st1)"
    by (cases "callback ev ep rq rid err data st")
  have ok1: "sent_ok st1 rid" by (rule callback_sent_ok_self [OF one Cons.prems(2)])
  show ?case
  proof (cases y)
    case None
    with Cons.prems(1) c one have "run_sync_calls ev ep rq rid calls st1 = (x, st')" by simp
    from Cons.IH [OF this ok1] show ?thesis .
  next
    case (Some e)
    with Cons.prems(1) c one have "st' = st1" by simp
    with ok1 show ?thesis by simp
  qed
qed

lemma call_handler_sent_ok_self:
  assumes ch: "call_handler ev ep rq rid a st = (x, st')" and ok: "sent_ok st rid"
  shows "sent_ok st' rid"
proof -
  obtain y st1 where sync: "run_sync_calls ev ep rq rid (arr_sync_calls a) st = (y, st1)"
    by (cases "run_sync_calls ev ep rq rid (arr_sync_calls a) st")
  have ok1: "sent_ok st1 rid" by (rule run_sync_calls_sent_ok_self [OF sync ok])
  show ?thesis
  proof (cases y)
    case (Some error)
    with ch sync have "reply500 ev rid (uncaught_message ep) error st1 = (x, st')"
      by (simp add: call_handler_def)
    from reply500_sent_ok_self [OF this ok1] show ?thesis .
  next
    case None
    show ?thesis
    proof (cases "arr_end a")
      case Returns
      with ch sync None have "st' = st1" by (simp add: call_handler_def)
      with ok1 show ?thesis by simp
    next
      case ReturnsThenable
      with ch sync None have "st' = st1" by (simp add: call_handler_def)
      with ok1 show ?thesis by simp
    next
      case (Throws error)
      with ch sync None have "reply500 ev rid (uncaught_message ep) error st1 = (x, st')"
        by (simp add: call_handler_def)
      from reply500_sent_ok_self [OF this ok1] show ?thesis .
    next
      case (ReturnsError e)
      show ?thesis
      proof (cases "serviceRuntime ev = ''babel'' \<and> \<not> request_done st1 rid")
        case False
        with ch sync None ReturnsError have "st' = st1" by (auto simp: call_handler_def)
        with ok1 show ?thesis by simp
      next
        case True
        obtain z st2 where cb: "callback ev ep rq rid (Some e) JNull st1 = (z, st2)"
          by (cases "callback ev ep rq rid (Some e) JNull st1")
        have ok2: "sent_ok st2 rid" by (rule callback_sent_ok_self [OF cb ok1])
        show ?thesis
        proof (cases z)
          case None
          with ch sync \<open>y = None\<close> ReturnsError True cb have "st' = st2"
            by (simp add: call_handler_def)
          with ok2 show ?thesis by simp
        next
          case (Some error)
          with ch sync \<open>y = None\<close> ReturnsError True cb
          have "reply500 ev rid (uncaught_message ep) error st2 = (x, st')"
            by (simp add: call_handler_def)
          from reply500_sent_ok_self [OF this ok2] show ?thesis .
        qed
      qed
    qed
  qed
qed

lemma all_sent_ok:
  assumes "handles rid st st'" and "sent_ok st rid \<Longrightarrow> sent_ok st' rid"
    and "\<forall>k. sent_ok st k"
  shows "\<forall>k. sent_ok st' k"
proof
  fix k
  show "sent_ok st' k"
  proof (cases "k = rid")
    case True
    with assms(2,3) show ?thesis by simp
  next
    case False
    with handles_sent_ok_other [OF assms(1)] assms(3) show ?thesis by simp
  qed
qed

lemma call_handler_sent_ok:
  assumes ch: "call_handler ev ep rq rid a st = (x, st')" and ok: "\<forall>k. sent_ok st k"
  shows "\<forall>k. sent_ok st' k"
  using call_handler_handles [OF ch] call_handler_sent_ok_self [OF ch] ok
  by (rule all_sent_ok)

lemma begin_request_sent_ok:
  assumes "\<forall>k. sent_ok st k"
  shows "\<forall>k. sent_ok (begin_request ep rid rq st) k"
proof
  fix k
  show "sent_ok (begin_request ep rid rq st) k"
  proof (cases "k = rid")
    case True
    then show ?thesis
      by (simp add: sent_ok_zero begin_request_effect held_response_def)
  next
    case False
    from assms have "sent_ok st k" by simp
    then show ?thesis
      by (rule sent_ok_other [rotated 2]) (use False in \<open>simp_all add: begin_request_effect\<close>)
  qed
qed

lemma armed_state_sent_ok:
  assumes "\<forall>k. sent_ok st k"
  shows "\<forall>k. sent_ok (arm_timer ev ep rid
           ((begin_request ep rid rq st)\<lparr>contexts := (contexts (begin_request ep rid rq st))(rid \<mapsto> rq)\<rparr>)) k"
proof
  fix k
  let ?s = "arm_timer ev ep rid
           ((begin_request ep rid rq st)\<lparr>contexts := (contexts (begin_request ep rid rq st))(rid \<mapsto> rq)\<rparr>)"
  show "sent_ok ?s k"
  proof (cases "k = rid")
    case True
    then show ?thesis
      by (simp add: sent_ok_zero armed_effect held_response_def)
  next
    case False
    from assms have "sent_ok st k" by simp
    then show ?thesis
      by (rule sent_ok_other [rotated 2]) (use False in \<open>simp_all add: armed_effect\<close>)
  qed
qed

lemma route_handler_sent_ok:
  assumes rh: "route_handler ev ep rid a st = (x, st')" and ok: "\<forall>k. sent_ok st k"
  shows "\<forall>k. sent_ok st' k"
proof (cases "arr_load_error a")
  case (Some err)
  with rh have "reply500 ev rid (load_error_message ep) err
                  (begin_request ep rid (arr_request a) st) = (x, st')"
    by (simp add: route_handler_def Let_def)
  from reply500_sent_ok [OF this begin_request_sent_ok [OF ok]] show ?thesis .
next
  case None
  show ?thesis
  proof (cases "arr_template_error a")
    case (Some err)
    with rh None obtain m where "reply500 ev rid m err
                  (begin_request ep rid (arr_request a) st) = (x, st')"
      by (simp add: route_handler_def Let_def)
    from reply500_sent_ok [OF this begin_request_sent_ok [OF ok]] show ?thesis .
  next
    case nt: None
    let ?b = "begin_request ep rid (arr_request a) st"
    let ?s = "arm_timer ev ep rid (?b\<lparr>contexts := (contexts ?b)(rid \<mapsto> arr_request a)\<rparr>)"
    from rh None nt have "call_handler ev ep (arr_request a) rid a ?s = (x, st')"
      by (simp add: route_handler_def Let_def)
    from call_handler_sent_ok [OF this armed_state_sent_ok [OF ok]] show ?thesis .
  qed
qed

section \<open>Synthetic error replies\<close>

lemma reply500_first_send:
  assumes "requests st rid = Some r" and "\<not> timer_called (timeout r)"
    and "res_sent (held st rid) = 0"
  shows "fst (reply500 ev rid m err st) = None
       \<and> res_statusCode (held (snd (reply500 ev rid m err st)) rid) = 200
       \<and> res_source (held (snd (reply500 ev rid m err st)) rid) = error_body m err
       \<and> res_sent (held (snd (reply500 ev rid m err st)) rid) = 1"
  using assms by (simp add: reply500_def clearTimeout'_def Let_def resp_defs log_defs)

lemma reply500_second_send:
  assumes "requests st rid = Some r" and "\<not> timer_called (timeout r)"
    and "res_sent (held st rid) \<noteq> 0"
  shows "fst (reply500 ev rid m err st) = Some (send_error ev)
       \<and> res_sent (held (snd (reply500 ev rid m err st)) rid) = res_sent (held st rid)"
  using assms by (simp add: reply500_def clearTimeout'_def Let_def resp_defs log_defs)

lemma reply500_sends_200:
  assumes rp: "reply500 ev rid message err st = (x, st')"
  shows "(res_sent (held st' rid) \<noteq> res_sent (held st rid) \<longrightarrow>
            x = None \<and> res_sent (held st rid) = 0 \<and> res_sent (held st' rid) = 1
          \<and> res_statusCode (held st' rid) = 200
          \<and> res_source (held st' rid) = error_body message err)
       \<and> (x \<noteq> None \<longrightarrow> res_sent (held st' rid) = res_sent (held st rid))"
  using rp
proof (cases rule: reply500_cases)
  case missing
  then show ?thesis by simp
next
  case (called r)
  then show ?thesis by simp
next
  case (sent r stackTrace)
  show ?thesis
  proof (cases "res_sent (held st rid) = 0")
    case True
    from reply500_first_send [OF sent(1,2) True, of ev message err] rp True show ?thesis
      by simp
  next
    case False
    from reply500_second_send [OF sent(1,2) False, of ev message err] rp False show ?thesis
      by simp
  qed
qed

lemma handles_not_called:
  assumes "handles rid s st1" and "requests s rid = Some r" and "\<not> timer_called (timeout r)"
  obtains r1 where "requests st1 rid = Some r1" and "\<not> timer_called (timeout r1)"
proof -
  from assms(1,2) have "rel_option timer_kept (Some r) (requests st1 rid)"
    by (simp add: handles_def)
  then obtain r1 where r1: "requests st1 rid = Some r1" and k: "timer_kept r r1"
    by (cases "requests st1 rid") simp_all
  from timer_kept_called [OF k] assms(3) have "\<not> timer_called (timeout r1)" by simp
  with r1 show ?thesis by (rule that)
qed

lemma call_handler_throws:
  assumes r: "requests s rid = Some r" and nc: "\<not> timer_called (timeout r)"
    and ok: "sent_ok s rid" and t: "arr_end a = Throws err"
  shows "res_sent (held (snd (call_handler ev ep rq rid a s)) rid) = 1
       \<and> (fst (call_handler ev ep rq rid a s) = None \<longrightarrow>
             res_statusCode (held (snd (call_handler ev ep rq rid a s)) rid) = 200
           \<and> (\<exists>e. res_source (held (snd (call_handler ev ep rq rid a s)) rid)
                    = error_body (uncaught_message ep) e))
       \<and> (fst (call_handler ev ep rq rid a s) \<noteq> None \<longrightarrow>
             fst (call_handler ev ep rq rid a s) = Some (send_error ev))"
proof -
  obtain y st1 where sync: "run_sync_calls ev ep rq rid (arr_sync_calls a) s = (y, st1)"
    by (cases "run_sync_calls ev ep rq rid (arr_sync_calls a) s")
  from run_sync_calls_handles [OF sync] r nc
  obtain r1 where r1: "requests st1 rid = Some r1" and nc1: "\<not> timer_called (timeout r1)"
    by (rule handles_not_called)
  have le: "res_sent (held st1 rid) \<le> 1"
    by (rule sent_ok_le [OF run_sync_calls_sent_ok_self [OF sync ok]])
  obtain e where ch: "call_handler ev ep rq rid a s = reply500 ev rid (uncaught_message ep) e st1"
    using sync t by (cases y) (simp_all add: call_handler_def)
  show ?thesis
  proof (cases "res_sent (held st1 rid) = 0")
    case True
    from reply500_first_send [OF r1 nc1 True, of ev "uncaught_message ep" e] show ?thesis
      by (auto simp: ch)
  next
    case False
    with le have "res_sent (held st1 rid) = 1" by simp
    with reply500_second_send [OF r1 nc1 False, of ev "uncaught_message ep" e] show ?thesis
      by (simp add: ch)
  qed
qed

text \<open>
  C9. Whenever \<^verbatim>\<open>_reply500\<close> sends a response, it is the first response of the request and
  it has status 200 and the body \<open>{errorMessage, errorType, stackTrace, offlineInfo}\<close>;
  when \<^verbatim>\<open>_reply500\<close> raises (its response was sent before, so \<^verbatim>\<open>response.send\<close> is gone)
  nothing is sent. At the call sites in the route handler: when the handler cannot be
  loaded or the request template cannot be rendered, the reply is sent with status 200;
  when the handler's call throws, either the reply is sent with status 200, or the handler
  had completed before and the only response of the request is the one sent then.
\<close>

theorem C9_error_replies_have_status_200:
  "(reply500 ev rid message err st = (x, st')
      \<and> res_sent (held st' rid) \<noteq> res_sent (held st rid) \<longrightarrow>
        x = None \<and> res_sent (held st rid) = 0 \<and> res_sent (held st' rid) = 1
      \<and> res_statusCode (held st' rid) = 200
      \<and> res_source (held st' rid) = error_body message err)
   \<and> (reply500 ev rid message err st = (x, st') \<and> x \<noteq> None \<longrightarrow>
        res_sent (held st' rid) = res_sent (held st rid))
   \<and> (arr_load_error a = Some err \<longrightarrow>
        fst (route_handler ev ep rid a st) = None
      \<and> res_statusCode (held (snd (route_handler ev ep rid a st)) rid) = 200
      \<and> res_source (held (snd (route_handler ev ep rid a st)) rid)
          = error_body (load_error_message ep) err
      \<and> res_sent (held (snd (route_handler ev ep rid a st)) rid) = 1)
   \<and> (arr_load_error a = None \<and> arr_template_error a = Some err \<longrightarrow>
        fst (route_handler ev ep rid a st) = None
      \<and> res_statusCode (held (snd (route_handler ev ep rid a st)) rid) = 200
      \<and> (\<exists>contentType. res_source (held (snd (route_handler ev ep rid a st)) rid)
            = error_body (template_parse_message ep contentType) err)
      \<and> res_sent (held (snd (route_handler ev ep rid a st)) rid) = 1)
   \<and> (arr_load_error a = None \<and> arr_template_error a = None \<and> arr_end a = Throws err \<longrightarrow>
        res_sent (held (snd (route_handler ev ep rid a st)) rid) = 1
      \<and> (fst (route_handler ev ep rid a st) = None \<longrightarrow>
            res_statusCode (held (snd (route_handler ev ep rid a st)) rid) = 200
          \<and> (\<exists>e. res_source (held (snd (route_handler ev ep rid a st)) rid)
                = error_body (uncaught_message ep) e))
      \<and> (fst (route_handler ev ep rid a st) \<noteq> None \<longrightarrow>
            fst (route_handler ev ep rid a st) = Some (send_error ev)))
   \<and> (arr_load_error a = None \<and> arr_template_error a = None \<and> arr_end a = Throws err
        \<and> arr_sync_calls a = [] \<longrightarrow>
        fst (route_handler ev ep rid a st) = None
      \<and> res_statusCode (held (snd (route_handler ev ep rid a st)) rid) = 200
      \<and> res_source (held (snd (route_handler ev ep rid a st)) rid)
          = error_body (uncaught_message ep) err)
   \<and> error_body message err =
        JObj [(''errorMessage'', JStr message),
              (''errorType'', JStr (constructor_name err)),
              (''stackTrace'', stackTrace_json (getArrayStackTrace (stack_of err))),
              (''offlineInfo'', JStr offlineInfo)]"
proof (intro conjI impI)
  assume "reply500 ev rid message err st = (x, st')
      \<and> res_sent (held st' rid) \<noteq> res_sent (held st rid)"
  with reply500_sends_200 [of ev rid message err st x st']
  have c: "x = None \<and> res_sent (held st rid) = 0 \<and> res_sent (held st' rid) = 1
      \<and> res_statusCode (held st' rid) = 200
      \<and> res_source (held st' rid) = error_body message err"
    by blast
  from c show "x = None" by simp
  from c show "res_sent (held st rid) = 0" by simp
  from c show "res_sent (held st' rid) = 1" by simp
  from c show "res_statusCode (held st' rid) = 200" by simp
  from c show "res_source (held st' rid) = error_body message err" by simp
next
  assume "reply500 ev rid message err st = (x, st') \<and> x \<noteq> None"
  with reply500_sends_200 [of ev rid message err st x st']
  show "res_sent (held st' rid) = res_sent (held st rid)" by blast
next
  let ?b = "begin_request ep rid (arr_request a) st"
  have rb: "requests ?b rid = Some \<lparr>is_done = False, timeout = TUndefined\<rparr>"
    by (simp add: begin_request_effect)
  have nb: "\<not> timer_called (timeout \<lparr>is_done = False, timeout = TUndefined\<rparr>)" by simp
  have sb: "res_sent (held ?b rid) = 0"
    by (simp add: begin_request_effect held_response_def)
  let ?s = "arm_timer ev ep rid (?b\<lparr>contexts := (contexts ?b)(rid \<mapsto> arr_request a)\<rparr>)"
  have rs: "requests ?s rid = Some \<lparr>is_done = False,
           timeout = (if noTimeout ev then TNull else TTimer (new_timer (funTimeout ep)))\<rparr>"
    by (simp add: armed_effect)
  have ns: "\<not> timer_called (timeout \<lparr>is_done = False,
           timeout = (if noTimeout ev then TNull else TTimer (new_timer (funTimeout ep)))\<rparr>)"
    by (simp add: new_timer_def)
  have ss: "res_sent (held ?s rid) = 0"
    by (simp add: armed_effect held_response_def)
  {
    assume l: "arr_load_error a = Some err"
    then have rh: "route_handler ev ep rid a st = reply500 ev rid (load_error_message ep) err ?b"
      by (simp add: route_handler_def Let_def)
    note s = reply500_first_send [OF rb nb sb, of ev "load_error_message ep" err]
    show "fst (route_handler ev ep rid a st) = None" using s by (simp add: rh)
    show "res_statusCode (held (snd (route_handler ev ep rid a st)) rid) = 200"
      using s by (simp add: rh)
    show "res_source (held (snd (route_handler ev ep rid a st)) rid)
            = error_body (load_error_message ep) err"
      using s by (simp add: rh)
    show "res_sent (held (snd (route_handler ev ep rid a st)) rid) = 1"
      using s by (simp add: rh)
  }
  {
    assume l: "arr_load_error a = None \<and> arr_template_error a = Some err"
    then obtain ct where
      rh: "route_handler ev ep rid a st = reply500 ev rid (template_parse_message ep ct) err ?b"
      by (simp add: route_handler_def Let_def)
    note s = reply500_first_send [OF rb nb sb, of ev "template_parse_message ep ct" err]
    show "fst (route_handler ev ep rid a st) = None" using s by (simp add: rh)
    show "res_statusCode (held (snd (route_handler ev ep rid a st)) rid) = 200"
      using s by (simp add: rh)
    show "\<exists>contentType. res_source (held (snd (route_handler ev ep rid a st)) rid)
            = error_body (template_parse_message ep contentType) err"
      using s by (auto simp: rh)
    show "res_sent (held (snd (route_handler ev ep rid a st)) rid) = 1"
      using s by (simp add: rh)
  }
  {
    assume l: "arr_load_error a = None \<and> arr_template_error a = None \<and> arr_end a = Throws err"
    then have rh: "route_handler ev ep rid a st = call_handler ev ep (arr_request a) rid a ?s"
      by (simp add: route_handler_def Let_def)
    from l have t: "arr_end a = Throws err" by simp
    have ok: "sent_ok ?s rid" by (rule sent_ok_zero [OF ss])
    note s = call_handler_throws [OF rs ns ok t, of ev ep "arr_request a"]
    show "res_sent (held (snd (route_handler ev ep rid a st)) rid) = 1"
      using s by (simp add: rh)
    show "res_statusCode (held (snd (route_handler ev ep rid a st)) rid) = 200"
      if "fst (route_handler ev ep rid a st) = None"
      using s that by (simp add: rh)
    show "\<exists>e. res_source (held (snd (route_handler ev ep rid a st)) rid)
            = error_body (uncaught_message ep) e"
      if "fst (route_handler ev ep rid a st) = None"
      using s that by (simp add: rh)
    show "fst (route_handler ev ep rid a st) = Some (send_error ev)"
      if "fst (route_handler ev ep rid a st) \<noteq> None"
      using s that by (simp add: rh)
  }
  {
    assume l: "arr_load_error a = None \<and> arr_template_error a = None \<and> arr_end a = Throws err
        \<and> arr_sync_calls a = []"
    then have rh: "route_handler ev ep rid a st
                     = reply500 ev rid (uncaught_message ep) err ?s"
      by (simp add: route_handler_def call_handler_def Let_def)
    note s = reply500_first_send [OF rs ns ss, of ev "uncaught_message ep" err]
    show "fst (route_handler ev ep rid a st) = None" using s by (simp add: rh)
    show "res_statusCode (held (snd (route_handler ev ep rid a st)) rid) = 200"
      using s by (simp add: rh)
    show "res_source (held (snd (route_handler ev ep rid a st)) rid)
            = error_body (uncaught_message ep) err"
      using s by (simp add: rh)
  }
  show "error_body message err =
        JObj [(''errorMessage'', JStr message),
              (''errorType'', JStr (constructor_name err)),
              (''stackTrace'', stackTrace_json (getArrayStackTrace (stack_of err))),
              (''offlineInfo'', JStr offlineInfo)]"
    by (simp add: error_body_def)
qed

lemma completed_sent: "res_sent (held completed_state ''A'') = 1"
  by (simp add: completed_state_def eval_defs)

theorem C9_witness:
  "requests arrived_state ''A''
     = Some \<lparr>is_done = False, timeout = TTimer \<lparr>called = False, cleared = False, delay = 1000\<rparr>\<rparr>
   \<and> res_sent (held (snd (reply500 example_env ''A'' ''message'' (StringValue ''boom'')
        arrived_state)) ''A'') \<noteq> res_sent (held arrived_state ''A'')
   \<and> fst (reply500 example_env ''A'' ''message'' (StringValue ''boom'') arrived_state) = None
   \<and> res_statusCode (held (snd (reply500 example_env ''A'' ''message''
        (StringValue ''boom'') arrived_state)) ''A'') = 200
   \<and> res_source (held (snd (reply500 example_env ''A'' ''message''
        (StringValue ''boom'') arrived_state)) ''A'')
       = JObj [(''errorMessage'', JStr ''message''), (''errorType'', JStr ''String''),
               (''stackTrace'', JNull), (''offlineInfo'', JStr offlineInfo)]
   \<and> fst (reply500 example_env ''A'' ''message'' (StringValue ''boom'') completed_state)
       = Some (send_error example_env)
   \<and> res_sent (held (snd (reply500 example_env ''A'' ''message'' (StringValue ''boom'')
        completed_state)) ''A'') = 1
   \<and> arr_load_error (pending_arrival\<lparr>arr_load_error :=
         Some (ErrorObject ''SyntaxError'' ''Unexpected token'' None)\<rparr>)
       = Some (ErrorObject ''SyntaxError'' ''Unexpected token'' None)
   \<and> res_statusCode (held (snd (route_handler example_env example_endpoint ''A''
        (pending_arrival\<lparr>arr_load_error :=
           Some (ErrorObject ''SyntaxError'' ''Unexpected token'' None)\<rparr>) initial)) ''A'')
       = 200
   \<and> res_source (held (snd (route_handler example_env example_endpoint ''A''
        (pending_arrival\<lparr>arr_load_error :=
           Some (ErrorObject ''SyntaxError'' ''Unexpected token'' None)\<rparr>) initial)) ''A'')
       = JObj [(''errorMessage'', JStr ''Error while loading hello''),
               (''errorType'', JStr ''SyntaxError''),
               (''stackTrace'', JNull),
               (''offlineInfo'', JStr offlineInfo)]
   \<and> arr_template_error (pending_arrival\<lparr>arr_template_error := Some (StringValue ''bad'')\<rparr>)
       = Some (StringValue ''bad'')
   \<and> res_statusCode (held (snd (route_handler example_env example_endpoint ''A''
        (pending_arrival\<lparr>arr_template_error := Some (StringValue ''bad'')\<rparr>) initial)) ''A'')
       = 200
   \<and> arr_end (pending_arrival\<lparr>arr_end := Throws (StringValue ''boom'')\<rparr>)
       = Throws (StringValue ''boom'')
   \<and> arr_sync_calls (pending_arrival\<lparr>arr_end := Throws (StringValue ''boom'')\<rparr>) = []
   \<and> fst (route_handler example_env example_endpoint ''A''
        (pending_arrival\<lparr>arr_end := Throws (StringValue ''boom'')\<rparr>) initial) = None
   \<and> res_statusCode (held (snd (route_handler example_env example_endpoint ''A''
        (pending_arrival\<lparr>arr_end := Throws (StringValue ''boom'')\<rparr>) initial)) ''A'') = 200
   \<and> res_source (held (snd (route_handler example_env example_endpoint ''A''
        (pending_arrival\<lparr>arr_end := Throws (StringValue ''boom'')\<rparr>) initial)) ''A'')
       = JObj [(''errorMessage'', JStr (uncaught_message example_endpoint)),
               (''errorType'', JStr ''String''),
               (''stackTrace'', JNull),
               (''offlineInfo'', JStr offlineInfo)]
   \<and> arr_end complete_then_throw = Throws (ErrorObject ''Error'' ''boom'' None)
   \<and> fst (route_handler example_env example_endpoint ''A'' complete_then_throw initial) \<noteq> None
   \<and> fst (route_handler example_env example_endpoint ''A'' complete_then_throw initial)
       = Some (send_error example_env)
   \<and> res_sent (held (snd (route_handler example_env example_endpoint ''A'' complete_then_throw
        initial)) ''A'') = 1"
proof -
  let ?r1 = "reply500 example_env ''A'' ''message'' (StringValue ''boom'') arrived_state"
  let ?r2 = "reply500 example_env ''A'' ''message'' (StringValue ''boom'') completed_state"
  have s0: "res_sent (held arrived_state ''A'') = 0" using arrived_response by simp
  have nc: "\<not> timer_called (timeout \<lparr>is_done = False,
              timeout = TTimer \<lparr>called = False, cleared = False, delay = 1000\<rparr>\<rparr>)"
    by simp
  have ch: "res_sent (held (snd ?r1) ''A'') \<noteq> res_sent (held arrived_state ''A'')"
    using reply500_first_send [OF arrived_requests nc s0, of example_env "''message''"
        "StringValue ''boom''"] s0
    by simp
  have a: "fst ?r1 = None \<and> res_statusCode (held (snd ?r1) ''A'') = 200
       \<and> res_source (held (snd ?r1) ''A'')
           = JObj [(''errorMessage'', JStr ''message''), (''errorType'', JStr ''String''),
               (''stackTrace'', JNull), (''offlineInfo'', JStr offlineInfo)]"
    using C9_error_replies_have_status_200
      [where ev = example_env and rid = "''A''" and st = arrived_state
         and message = "''message''" and err = "StringValue ''boom''"
         and x = "fst ?r1" and st' = "snd ?r1", THEN conjunct1] ch
    by (simp add: error_body_def stackTrace_json_def getArrayStackTrace_def)
  have nc2: "\<not> timer_called (timeout \<lparr>is_done = True,
              timeout = TTimer \<lparr>called = False, cleared = True, delay = 1000\<rparr>\<rparr>)"
    by simp
  have s1: "res_sent (held completed_state ''A'') \<noteq> 0" using completed_sent by simp
  have x2: "fst ?r2 = Some (send_error example_env)"
    using reply500_second_send [OF completed_requests nc2 s1, of example_env "''message''"
        "StringValue ''boom''"]
    by simp
  have eq2: "?r2 = (Some (send_error example_env), snd ?r2)"
    using x2 by (simp add: prod_eq_iff)
  have b: "res_sent (held (snd ?r2) ''A'') = 1"
    using C9_error_replies_have_status_200
      [where ev = example_env and rid = "''A''" and st = completed_state
         and message = "''message''" and err = "StringValue ''boom''"
         and x = "Some (send_error example_env)" and st' = "snd ?r2",
       THEN conjunct2, THEN conjunct1] eq2 completed_sent
    by simp
  have c: "res_statusCode (held (snd (route_handler example_env example_endpoint ''A''
        (pending_arrival\<lparr>arr_load_error :=
           Some (ErrorObject ''SyntaxError'' ''Unexpected token'' None)\<rparr>) initial)) ''A'')
       = 200
   \<and> res_source (held (snd (route_handler example_env example_endpoint ''A''
        (pending_arrival\<lparr>arr_load_error :=
           Some (ErrorObject ''SyntaxError'' ''Unexpected token'' None)\<rparr>) initial)) ''A'')
       = JObj [(''errorMessage'', JStr ''Error while loading hello''),
               (''errorType'', JStr ''SyntaxError''),
               (''stackTrace'', JNull),
               (''offlineInfo'', JStr offlineInfo)]"
    using C9_error_replies_have_status_200
      [where ev = example_env and rid = "''A''" and st = initial and ep = example_endpoint
         and err = "ErrorObject ''SyntaxError'' ''Unexpected token'' None"
         and a = "pending_arrival\<lparr>arr_load_error :=
                    Some (ErrorObject ''SyntaxError'' ''Unexpected token'' None)\<rparr>"]
    by (simp add: pending_arrival_def load_error_message_def example_endpoint_def
        stackTrace_json_def getArrayStackTrace_def)
  have d: "res_statusCode (held (snd (route_handler example_env example_endpoint ''A''
        (pending_arrival\<lparr>arr_template_error := Some (StringValue ''bad'')\<rparr>) initial)) ''A'')
       = 200"
    using C9_error_replies_have_status_200
      [where ev = example_env and rid = "''A''" and st = initial and ep = example_endpoint
         and err = "StringValue ''bad''"
         and a = "pending_arrival\<lparr>arr_template_error := Some (StringValue ''bad'')\<rparr>"]
    by (simp add: pending_arrival_def)
  have e: "fst (route_handler example_env example_endpoint ''A''
        (pending_arrival\<lparr>arr_end := Throws (StringValue ''boom'')\<rparr>) initial) = None
   \<and> res_statusCode (held (snd (route_handler example_env example_endpoint ''A''
        (pending_arrival\<lparr>arr_end := Throws (StringValue ''boom'')\<rparr>) initial)) ''A'') = 200
   \<and> res_source (held (snd (route_handler example_env example_endpoint ''A''
        (pending_arrival\<lparr>arr_end := Throws (StringValue ''boom'')\<rparr>) initial)) ''A'')
       = JObj [(''errorMessage'', JStr (uncaught_message example_endpoint)),
               (''errorType'', JStr ''String''),
               (''stackTrace'', JNull),
               (''offlineInfo'', JStr offlineInfo)]"
    using C9_error_replies_have_status_200
      [where ev = example_env and rid = "''A''" and st = initial and ep = example_endpoint
         and err = "StringValue ''boom''" and message = "uncaught_message example_endpoint"
         and a = "pending_arrival\<lparr>arr_end := Throws (StringValue ''boom'')\<rparr>"]
    by (simp add: pending_arrival_def stackTrace_json_def getArrayStackTrace_def)
  have nn: "fst (route_handler example_env example_endpoint ''A'' complete_then_throw initial)
              \<noteq> None"
    by (simp add: eval_defs)
  have f: "fst (route_handler example_env example_endpoint ''A'' complete_then_throw initial)
       = Some (send_error example_env)
   \<and> res_sent (held (snd (route_handler example_env example_endpoint ''A'' complete_then_throw
        initial)) ''A'') = 1"
    using C9_error_replies_have_status_200
      [where ev = example_env and rid = "''A''" and st = initial and ep = example_endpoint
         and err = "ErrorObject ''Error'' ''boom'' None" and a = complete_then_throw] nn
    by (simp add: complete_then_throw_def pending_arrival_def)
  have g: "arr_end complete_then_throw = Throws (ErrorObject ''Error'' ''boom'' None)"
    by (simp add: complete_then_throw_def)
  from arrived_requests ch a x2 b c d e nn f g show ?thesis
    by (simp add: pending_arrival_def)
qed

section \<open>Timers\<close>

lemma timer_fires_idle:
  assumes "requests st rid = None \<or> (\<exists>r. requests st rid = Some r \<and> \<not> armed (timeout r))"
  shows "timer_fires ev ep rid st = (None, st)"
proof (cases "requests st rid")
  case None
  then show ?thesis by (simp add: timer_fires_def)
next
  case (Some r)
  with assms have na: "\<not> armed (timeout r)" by simp
  show ?thesis
  proof (cases "timeout r")
    case (TTimer t)
    with na have "called t \<or> cleared t" by (simp add: armed_def)
    with Some TTimer show ?thesis by (simp add: timer_fires_def)
  next
    case TNull
    with Some show ?thesis by (simp add: timer_fires_def)
  next
    case TUndefined
    with Some show ?thesis by (simp add: timer_fires_def)
  qed
qed

lemma timer_fires_current:
  assumes "requests st rid = Some r" and "timeout r = TTimer t"
    and "\<not> called t" and "\<not> cleared t" and "currentRequestId st = Some rid"
    and "res_sent (held st rid) = 0"
  shows "fst (timer_fires ev ep rid st) = None
       \<and> requests (snd (timer_fires ev ep rid st))
           = (requests st)(rid \<mapsto> \<lparr>is_done = True, timeout = TTimer (t\<lparr>called := True\<rparr>)\<rparr>)
       \<and> res_statusCode (held (snd (timer_fires ev ep rid st)) rid) = 503
       \<and> res_source (held (snd (timer_fires ev ep rid st)) rid)
           = JStr (timeout_body (funName ep) (funTimeout ep))
       \<and> res_sent (held (snd (timer_fires ev ep rid st)) rid) = 1
       \<and> (\<forall>k. k \<noteq> rid \<longrightarrow> held (snd (timer_fires ev ep rid st)) k = held st k)"
  using assms
  by (cases r)
     (simp add: timer_fires_def replyTimeout_def update_request_def resp_defs log_defs Let_def)

lemma timer_fires_stale:
  assumes "requests st rid = Some r" and "timeout r = TTimer t"
    and "\<not> called t" and "\<not> cleared t" and "currentRequestId st \<noteq> Some rid"
  shows "timer_fires ev ep rid st
           = (None, st\<lparr>requests := (requests st)(rid \<mapsto> r\<lparr>timeout := TTimer (t\<lparr>called := True\<rparr>)\<rparr>)\<rparr>)"
  using assms
  by (simp add: timer_fires_def replyTimeout_def update_request_def)

lemma timer_fires_no_timers:
  assumes "no_timers st"
  shows "timer_fires ev ep rid st = (None, st)"
proof (cases "requests st rid")
  case None
  then show ?thesis by (simp add: timer_fires_idle)
next
  case (Some r)
  with assms have "timeout r = TNull \<or> timeout r = TUndefined" by (simp add: no_timers_def)
  then have "\<not> armed (timeout r)" by (auto simp: armed_def)
  with Some show ?thesis by (simp add: timer_fires_idle)
qed

lemma armed_unsent:
  assumes "sent_ok st rid" and "requests st rid = Some r" and "timeout r = TTimer t"
    and "\<not> called t" and "\<not> cleared t"
  shows "res_sent (held st rid) = 0"
proof (rule ccontr)
  assume "res_sent (held st rid) \<noteq> 0"
  with assms(1,2) have "\<not> armed (timeout r)" by (simp add: sent_ok_def)
  with assms(3,4,5) show False by (simp add: armed_def)
qed

lemma timer_fires_sent_ok:
  assumes tf: "timer_fires ev ep rid st = (x, st')" and ok: "\<forall>k. sent_ok st k"
  shows "\<forall>k. sent_ok st' k"
proof (cases "requests st rid = None \<or> (\<exists>r. requests st rid = Some r \<and> \<not> armed (timeout r))")
  case True
  from timer_fires_idle [OF True, of ev ep] tf ok show ?thesis by simp
next
  case False
  then obtain r t where r: "requests st rid = Some r" and t: "timeout r = TTimer t"
    and nc: "\<not> called t" "\<not> cleared t"
    by (cases "requests st rid") (auto simp: armed_def split: timeout_field.splits)
  from ok have okr: "sent_ok st rid" by simp
  have z: "res_sent (held st rid) = 0" by (rule armed_unsent [OF okr r t nc])
  show ?thesis
  proof (cases "currentRequestId st = Some rid")
    case True
    note c = timer_fires_current [OF r t nc True z, of ev ep]
    show ?thesis
    proof
      fix k
      show "sent_ok st' k"
      proof (cases "k = rid")
        case True
        have "requests st' rid = Some \<lparr>is_done = True, timeout = TTimer (t\<lparr>called := True\<rparr>)\<rparr>"
          using c tf by simp
        then show ?thesis
          unfolding True
          by (rule sent_ok_closed) (use c tf in \<open>simp_all add: armed_def\<close>)
      next
        case False
        from ok have "sent_ok st k" by simp
        then show ?thesis
          by (rule sent_ok_other [rotated 2]) (use c tf False in simp_all)
      qed
    qed
  next
    case False
    note s = timer_fires_stale [OF r t nc False, of ev ep]
    show ?thesis
    proof
      fix k
      show "sent_ok st' k"
      proof (cases "k = rid")
        case True
        from s tf z show ?thesis unfolding True by (simp add: sent_ok_zero)
      next
        case nk: False
        from ok have "sent_ok st k" by simp
        then show ?thesis
          by (rule sent_ok_other [rotated 2]) (use s tf nk in auto)
      qed
    qed
  qed
qed

lemma step_sent_ok:
  assumes "step ev ep e st = (x, st')" and "\<forall>k. sent_ok st k"
  shows "\<forall>k. sent_ok st' k"
proof (cases e)
  case (Arrive rid a)
  with assms have "route_handler ev ep rid a st = (x, st')" by simp
  from route_handler_sent_ok [OF this assms(2)] show ?thesis .
next
  case (Completion rid err data)
  show ?thesis
  proof (cases "contexts st rid")
    case None
    with assms Completion show ?thesis by simp
  next
    case (Some rq)
    with assms Completion have "callback ev ep rq rid err data st = (x, st')" by simp
    from callback_sent_ok [OF this assms(2)] show ?thesis .
  qed
next
  case (TimerFires rid)
  with assms have "timer_fires ev ep rid st = (x, st')" by simp
  from timer_fires_sent_ok [OF this assms(2)] show ?thesis .
qed

lemma run_sent_ok:
  "run ev ep evs st = (x, st') \<Longrightarrow> \<forall>k. sent_ok st k \<Longrightarrow> \<forall>k. sent_ok st' k"
proof (induction evs arbitrary: st)
  case Nil
  then show ?case by simp
next
  case (Cons e evs)
  obtain y st1 where s: "step ev ep e st = (y, st1)" by (cases "step ev ep e st")
  from step_sent_ok [OF s Cons.prems(2)] have n1: "\<forall>k. sent_ok st1 k" .
  show ?case
  proof (cases y)
    case None
    with Cons.prems(1) s have "run ev ep evs st1 = (x, st')" by simp
    from Cons.IH [OF this n1] show ?thesis .
  next
    case (Some err)
    with Cons.prems(1) s have "st' = st1" by simp
    with n1 show ?thesis by simp
  qed
qed

lemma sent_ok_initial: "\<forall>k. sent_ok initial k"
  by (simp add: sent_ok_def initial_def held_response_def)

lemma handles_no_timers:
  assumes h: "handles rid st st'" and n: "no_timers st"
  shows "no_timers st'"
  unfolding no_timers_def
proof (intro allI impI)
  fix k r' assume r': "requests st' k = Some r'"
  show "timeout r' = TNull \<or> timeout r' = TUndefined"
  proof (cases "k = rid")
    case False
    with h r' have "requests st k = Some r'" by (simp add: handles_def)
    with n show ?thesis by (simp add: no_timers_def)
  next
    case True
    with h r' have "rel_option timer_kept (requests st rid) (Some r')" by (simp add: handles_def)
    then obtain r where r: "requests st rid = Some r" and k: "timer_kept r r'"
      by (cases "requests st rid") simp_all
    from n r have "timeout r = TNull \<or> timeout r = TUndefined" by (simp add: no_timers_def)
    with k show ?thesis by (auto simp: timer_kept_def)
  qed
qed

lemma route_handler_no_timers:
  assumes rh: "route_handler ev ep rid a st = (x, st')" and nt: "noTimeout ev"
    and n: "no_timers st"
  shows "no_timers st'"
  unfolding no_timers_def
proof (intro allI impI)
  fix k r' assume r': "requests st' k = Some r'"
  note eff = route_handler_effect [OF rh]
  show "timeout r' = TNull \<or> timeout r' = TUndefined"
  proof (cases "k = rid")
    case False
    with eff r' have "requests st k = Some r'" by simp
    with n show ?thesis by (simp add: no_timers_def)
  next
    case True
    with eff r' have "timer_kept \<lparr>is_done = False, timeout = first_timeout ev ep a\<rparr> r'" by auto
    with nt show ?thesis by (auto simp: timer_kept_def first_timeout_def split: if_splits)
  qed
qed

lemma step_no_timers:
  assumes "step ev ep e st = (x, st')" and "noTimeout ev" and "no_timers st"
  shows "no_timers st'"
proof (cases e)
  case (Arrive rid a)
  with assms show ?thesis by (auto intro: route_handler_no_timers)
next
  case (Completion rid err data)
  show ?thesis
  proof (cases "contexts st rid")
    case None
    with assms Completion show ?thesis by simp
  next
    case (Some rq)
    with assms Completion have "callback ev ep rq rid err data st = (x, st')" by simp
    from callback_handles [OF this] assms(3) show ?thesis by (rule handles_no_timers)
  qed
next
  case (TimerFires rid)
  with assms show ?thesis by (simp add: timer_fires_no_timers)
qed

lemma run_no_timers:
  "run ev ep evs st = (x, st') \<Longrightarrow> noTimeout ev \<Longrightarrow> no_timers st \<Longrightarrow> no_timers st'"
proof (induction evs arbitrary: st)
  case Nil
  then show ?case by simp
next
  case (Cons e evs)
  obtain y st1 where s: "step ev ep e st = (y, st1)" by (cases "step ev ep e st")
  from step_no_timers [OF s Cons.prems(2,3)] have n1: "no_timers st1" .
  show ?case
  proof (cases y)
    case None
    with Cons.prems(1) s have "run ev ep evs st1 = (x, st')" by simp
    from Cons.IH [OF this Cons.prems(2) n1] show ?thesis .
  next
    case (Some err)
    with Cons.prems(1) s have "st' = st1" by simp
    with n1 show ?thesis by simp
  qed
qed

lemma no_timers_initial: "no_timers initial"
  by (simp add: no_timers_def initial_def)

lemma timer_fires_current_sets:
  assumes "requests st rid = Some r" and "timeout r = TTimer t"
    and "\<not> called t" and "\<not> cleared t" and "currentRequestId st = Some rid"
  shows "requests (snd (timer_fires ev ep rid st)) rid
           = Some \<lparr>is_done = True, timeout = TTimer (t\<lparr>called := True\<rparr>)\<rparr>
       \<and> res_statusCode (held (snd (timer_fires ev ep rid st)) rid) = 503
       \<and> res_source (held (snd (timer_fires ev ep rid st)) rid)
           = JStr (timeout_body (funName ep) (funTimeout ep))"
  using assms
  by (cases r)
     (simp add: timer_fires_def replyTimeout_def update_request_def resp_defs log_defs Let_def)

text \<open>
  C4 (as amended). With timeouts enabled, a request whose handler is loaded and whose
  template is rendered gets a timer with the function's timeout as delay; a request whose
  handler fails to load or whose template fails to render gets none. When the timer runs
  while its request is still the most recent one, the request becomes done and the
  response gets the status 503 and the fixed text naming the function and the
  milliseconds; it is sent when no response was sent for the request before, which holds
  in every state that a run reaches for a request whose timer can still run. With
  timeouts disabled no request ever has a timer and a timer event changes nothing.
\<close>

theorem C4_timeout_reply:
  "(arr_load_error a = None \<and> arr_template_error a = None \<and> \<not> noTimeout ev \<longrightarrow>
      (\<exists>r t. requests (snd (route_handler ev ep rid a st)) rid = Some r
             \<and> timeout r = TTimer t \<and> \<not> called t \<and> delay t = funTimeout ep))
   \<and> (arr_load_error a \<noteq> None \<or> arr_template_error a \<noteq> None \<longrightarrow>
      (\<exists>r. requests (snd (route_handler ev ep rid a st)) rid = Some r
           \<and> timeout r = TUndefined))
   \<and> (requests st rid = Some r \<and> timeout r = TTimer t \<and> \<not> called t \<and> \<not> cleared t
        \<and> currentRequestId st = Some rid \<longrightarrow>
        request_done (snd (timer_fires ev ep rid st)) rid
      \<and> res_statusCode (held (snd (timer_fires ev ep rid st)) rid) = 503
      \<and> res_source (held (snd (timer_fires ev ep rid st)) rid)
          = JStr (''[Serverless-Offline] Your '' @ lambda_sign @ '' handler '' @ quote
                    @ funName ep @ quote @ '' timed out after '' @ show_nat (funTimeout ep)
                    @ ''ms.'')
      \<and> (res_sent (held st rid) = 0 \<longrightarrow>
            fst (timer_fires ev ep rid st) = None
          \<and> res_sent (held (snd (timer_fires ev ep rid st)) rid) = res_sent (held st rid) + 1))
   \<and> (run ev ep evs1 initial = (x1, st1) \<and> requests st1 rid = Some r \<and> timeout r = TTimer t
        \<and> \<not> called t \<and> \<not> cleared t \<longrightarrow>
        res_sent (held st1 rid) = 0)
   \<and> (noTimeout ev \<and> run ev ep evs initial = (x, st2) \<longrightarrow>
        no_timers st2 \<and> timer_fires ev ep k st2 = (None, st2))"
proof (intro conjI impI)
  assume a: "arr_load_error a = None \<and> arr_template_error a = None \<and> \<not> noTimeout ev"
  obtain y st' where rh: "route_handler ev ep rid a st = (y, st')"
    by (cases "route_handler ev ep rid a st")
  from route_handler_effect [OF rh] obtain r' where
    r': "requests st' rid = Some r'"
    and k: "timer_kept \<lparr>is_done = False, timeout = first_timeout ev ep a\<rparr> r'"
    by blast
  from a have "first_timeout ev ep a = TTimer (new_timer (funTimeout ep))"
    by (simp add: first_timeout_def)
  with k have "timeout r' = TTimer (new_timer (funTimeout ep))
             \<or> timeout r' = TTimer ((new_timer (funTimeout ep))\<lparr>cleared := True\<rparr>)"
    by (auto simp: timer_kept_def)
  then have "\<exists>t. timeout r' = TTimer t \<and> \<not> called t \<and> delay t = funTimeout ep"
    by (auto simp: new_timer_def)
  with r' rh show "\<exists>r t. requests (snd (route_handler ev ep rid a st)) rid = Some r
             \<and> timeout r = TTimer t \<and> \<not> called t \<and> delay t = funTimeout ep"
    by auto
next
  assume a: "arr_load_error a \<noteq> None \<or> arr_template_error a \<noteq> None"
  obtain y st' where rh: "route_handler ev ep rid a st = (y, st')"
    by (cases "route_handler ev ep rid a st")
  from route_handler_effect [OF rh] obtain r' where
    r': "requests st' rid = Some r'"
    and k: "timer_kept \<lparr>is_done = False, timeout = first_timeout ev ep a\<rparr> r'"
    by blast
  from a have "first_timeout ev ep a = TUndefined" by (auto simp: first_timeout_def)
  with k have "timeout r' = TUndefined" by (auto simp: timer_kept_def)
  with r' rh show "\<exists>r. requests (snd (route_handler ev ep rid a st)) rid = Some r
           \<and> timeout r = TUndefined"
    by simp
next
  assume f: "requests st rid = Some r \<and> timeout r = TTimer t \<and> \<not> called t \<and> \<not> cleared t
        \<and> currentRequestId st = Some rid"
  then have tf: "requests (snd (timer_fires ev ep rid st)) rid
           = Some \<lparr>is_done = True, timeout = TTimer (t\<lparr>called := True\<rparr>)\<rparr>
       \<and> res_statusCode (held (snd (timer_fires ev ep rid st)) rid) = 503
       \<and> res_source (held (snd (timer_fires ev ep rid st)) rid)
           = JStr (timeout_body (funName ep) (funTimeout ep))"
    using timer_fires_current_sets [of st rid r t ev ep] by simp
  from tf show "request_done (snd (timer_fires ev ep rid st)) rid"
    by (simp add: request_done_def)
  from tf show "res_statusCode (held (snd (timer_fires ev ep rid st)) rid) = 503" by simp
  from tf show "res_source (held (snd (timer_fires ev ep rid st)) rid)
          = JStr (''[Serverless-Offline] Your '' @ lambda_sign @ '' handler '' @ quote
                    @ funName ep @ quote @ '' timed out after '' @ show_nat (funTimeout ep)
                    @ ''ms.'')"
    by (simp add: timeout_body_def)
  assume z: "res_sent (held st rid) = 0"
  from f z have c: "fst (timer_fires ev ep rid st) = None
       \<and> res_sent (held (snd (timer_fires ev ep rid st)) rid) = 1"
    using timer_fires_current [of st rid r t ev ep] by simp
  from c show "fst (timer_fires ev ep rid st) = None" by simp
  from c z show "res_sent (held (snd (timer_fires ev ep rid st)) rid)
                   = res_sent (held st rid) + 1"
    by simp
next
  assume r: "run ev ep evs1 initial = (x1, st1) \<and> requests st1 rid = Some r
        \<and> timeout r = TTimer t \<and> \<not> called t \<and> \<not> cleared t"
  then have "run ev ep evs1 initial = (x1, st1)" by simp
  from run_sent_ok [OF this sent_ok_initial] have "sent_ok st1 rid" by simp
  with r show "res_sent (held st1 rid) = 0" using armed_unsent [of st1 rid r t] by simp
next
  assume n: "noTimeout ev \<and> run ev ep evs initial = (x, st2)"
  then have "no_timers st2" using run_no_timers no_timers_initial by blast
  then show "no_timers st2" and "timer_fires ev ep k st2 = (None, st2)"
    by (simp_all add: timer_fires_no_timers)
qed

lemma arrived_current: "currentRequestId arrived_state = Some ''A''"
  by (simp add: arrived_state_def eval_defs)

lemma arrived_run:
  "run example_env example_endpoint [Arrive ''A'' pending_arrival] initial
     = (None, arrived_state)"
  by (simp add: arrived_step)

theorem C4_witness:
  "\<not> noTimeout example_env
   \<and> (\<exists>r t. requests (snd (route_handler example_env example_endpoint ''A'' pending_arrival
                             initial)) ''A'' = Some r
            \<and> timeout r = TTimer t \<and> \<not> called t \<and> delay t = 1000)
   \<and> arr_load_error (pending_arrival\<lparr>arr_load_error := Some (StringValue ''bad'')\<rparr>) \<noteq> None
   \<and> (\<exists>r. requests (snd (route_handler example_env example_endpoint ''A''
              (pending_arrival\<lparr>arr_load_error := Some (StringValue ''bad'')\<rparr>) initial)) ''A''
            = Some r \<and> timeout r = TUndefined)
   \<and> run example_env example_endpoint [Arrive ''A'' pending_arrival] initial
       = (None, arrived_state)
   \<and> requests arrived_state ''A''
       = Some \<lparr>is_done = False, timeout = TTimer \<lparr>called = False, cleared = False, delay = 1000\<rparr>\<rparr>
   \<and> currentRequestId arrived_state = Some ''A''
   \<and> res_sent (held arrived_state ''A'') = 0
   \<and> request_done (snd (timer_fires example_env example_endpoint ''A'' arrived_state)) ''A''
   \<and> res_statusCode (held (snd (timer_fires example_env example_endpoint ''A''
        arrived_state)) ''A'') = 503
   \<and> res_source (held (snd (timer_fires example_env example_endpoint ''A''
        arrived_state)) ''A'')
       = JStr (''[Serverless-Offline] Your '' @ lambda_sign @ '' handler '' @ quote
                 @ ''hello'' @ quote @ '' timed out after 1000ms.'')
   \<and> fst (timer_fires example_env example_endpoint ''A'' arrived_state) = None
   \<and> res_sent (held (snd (timer_fires example_env example_endpoint ''A''
        arrived_state)) ''A'') = 1
   \<and> noTimeout (example_env\<lparr>noTimeout := True\<rparr>)
   \<and> fst (run (example_env\<lparr>noTimeout := True\<rparr>) example_endpoint
            [Arrive ''A'' pending_arrival] initial) = None
   \<and> timer_fires (example_env\<lparr>noTimeout := True\<rparr>) example_endpoint ''A''
        (snd (run (example_env\<lparr>noTimeout := True\<rparr>) example_endpoint
                [Arrive ''A'' pending_arrival] initial))
       = (None, snd (run (example_env\<lparr>noTimeout := True\<rparr>) example_endpoint
                [Arrive ''A'' pending_arrival] initial))"
proof -
  let ?t = "\<lparr>called = False, cleared = False, delay = 1000\<rparr>"
  let ?r = "\<lparr>is_done = False, timeout = TTimer ?t\<rparr>"
  let ?ev = "example_env\<lparr>noTimeout := True\<rparr>"
  let ?s = "snd (run ?ev example_endpoint [Arrive ''A'' pending_arrival] initial)"
  have nt: "\<not> noTimeout example_env" by (simp add: example_env_def)
  have f: "fst (run ?ev example_endpoint [Arrive ''A'' pending_arrival] initial) = None"
    by (simp add: eval_defs)
  then have r: "run ?ev example_endpoint [Arrive ''A'' pending_arrival] initial = (None, ?s)"
    by (simp add: prod_eq_iff)
  have sh: "show_nat 1000 = ''1000''" by (simp add: show_nat.simps)
  have p1: "\<exists>r t. requests (snd (route_handler example_env example_endpoint ''A''
                pending_arrival initial)) ''A'' = Some r
            \<and> timeout r = TTimer t \<and> \<not> called t \<and> delay t = 1000"
    using C4_timeout_reply [where a = pending_arrival and ev = example_env
      and ep = example_endpoint and rid = "''A''" and st = initial, THEN conjunct1] nt
    by (simp add: pending_arrival_def example_endpoint_def)
  have p2: "\<exists>r. requests (snd (route_handler example_env example_endpoint ''A''
              (pending_arrival\<lparr>arr_load_error := Some (StringValue ''bad'')\<rparr>) initial)) ''A''
            = Some r \<and> timeout r = TUndefined"
    using C4_timeout_reply [where a = "pending_arrival\<lparr>arr_load_error := Some (StringValue ''bad'')\<rparr>"
      and ev = example_env and ep = example_endpoint and rid = "''A''" and st = initial,
      THEN conjunct2, THEN conjunct1]
    by simp
  have p4: "res_sent (held arrived_state ''A'') = 0"
    using C4_timeout_reply [where ev = example_env and ep = example_endpoint
      and ?evs1.0 = "[Arrive ''A'' pending_arrival]" and ?x1.0 = None
      and ?st1.0 = arrived_state and rid = "''A''" and r = ?r and t = ?t,
      THEN conjunct2, THEN conjunct2, THEN conjunct2, THEN conjunct1]
      arrived_run arrived_requests
    by simp
  have p3: "request_done (snd (timer_fires example_env example_endpoint ''A'' arrived_state)) ''A''
   \<and> res_statusCode (held (snd (timer_fires example_env example_endpoint ''A''
        arrived_state)) ''A'') = 503
   \<and> res_source (held (snd (timer_fires example_env example_endpoint ''A''
        arrived_state)) ''A'')
       = JStr (''[Serverless-Offline] Your '' @ lambda_sign @ '' handler '' @ quote
                 @ ''hello'' @ quote @ '' timed out after 1000ms.'')
   \<and> fst (timer_fires example_env example_endpoint ''A'' arrived_state) = None
   \<and> res_sent (held (snd (timer_fires example_env example_endpoint ''A''
        arrived_state)) ''A'') = 1"
    using C4_timeout_reply [where ev = example_env and ep = example_endpoint
      and rid = "''A''" and st = arrived_state and r = ?r and t = ?t,
      THEN conjunct2, THEN conjunct2, THEN conjunct1]
      arrived_requests arrived_current p4 sh
    by (simp add: example_endpoint_def)
  have p5: "timer_fires ?ev example_endpoint ''A'' ?s = (None, ?s)"
    using C4_timeout_reply [where ev = ?ev and ep = example_endpoint
      and evs = "[Arrive ''A'' pending_arrival]" and x = None and ?st2.0 = ?s
      and k = "''A''",
      THEN conjunct2, THEN conjunct2, THEN conjunct2, THEN conjunct2] r
    by simp
  from nt p1 p2 p3 p4 p5 f arrived_run arrived_requests arrived_current
  show ?thesis by simp
qed

text \<open>
  Request A is pending when request B arrives; the timer of A then runs, and A is neither
  done nor answered.
\<close>

theorem C4_counterexample:
  "\<not> noTimeout example_env
   \<and> requests two_arrivals_state ''A''
       = Some \<lparr>is_done = False, timeout = TTimer \<lparr>called = False, cleared = False, delay = 1000\<rparr>\<rparr>
   \<and> fst (timer_fires example_env example_endpoint ''A'' two_arrivals_state) = None
   \<and> \<not> request_done (snd (timer_fires example_env example_endpoint ''A''
          two_arrivals_state)) ''A''
   \<and> res_sent (held (snd (timer_fires example_env example_endpoint ''A''
        two_arrivals_state)) ''A'') = 0
   \<and> res_source (held (snd (timer_fires example_env example_endpoint ''A''
        two_arrivals_state)) ''A'') = JNull"
  by (simp add: two_arrivals_state_def eval_defs)

section \<open>The marker of the most recent request\<close>

text \<open>
  C5 (as amended). \<^verbatim>\<open>_replyTimeout\<close> does nothing when its request id is not the most
  recent one, whether or not that request has finished. Every arriving request makes its
  own id the most recent one and leaves the state and the response of every other request
  as they are; so from then on the timer of an earlier request, also of one that is still
  pending, only gets its called mark and sends nothing.
\<close>

theorem C5_stale_timer_is_suppressed:
  "(currentRequestId st \<noteq> Some rid \<longrightarrow> replyTimeout ev f ms rid st = (None, st))
   \<and> currentRequestId (snd (route_handler ev ep rid2 a st)) = Some rid2
   \<and> (rid \<noteq> rid2 \<longrightarrow>
        requests (snd (route_handler ev ep rid2 a st)) rid = requests st rid
      \<and> held (snd (route_handler ev ep rid2 a st)) rid = held st rid
      \<and> replyTimeout ev f ms rid (snd (route_handler ev ep rid2 a st))
          = (None, snd (route_handler ev ep rid2 a st)))
   \<and> (rid \<noteq> rid2 \<and> requests st rid = Some r \<and> timeout r = TTimer t \<and> \<not> called t
        \<and> \<not> cleared t \<longrightarrow>
        fst (timer_fires ev ep rid (snd (route_handler ev ep rid2 a st))) = None
      \<and> requests (snd (timer_fires ev ep rid (snd (route_handler ev ep rid2 a st)))) rid
          = Some (r\<lparr>timeout := TTimer (t\<lparr>called := True\<rparr>)\<rparr>)
      \<and> held (snd (timer_fires ev ep rid (snd (route_handler ev ep rid2 a st)))) rid
          = held st rid
      \<and> logs (snd (timer_fires ev ep rid (snd (route_handler ev ep rid2 a st))))
          = logs (snd (route_handler ev ep rid2 a st)))"
proof -
  obtain y st' where rh: "route_handler ev ep rid2 a st = (y, st')"
    by (cases "route_handler ev ep rid2 a st")
  note eff = route_handler_effect [OF rh]
  have stale: "replyTimeout ev f ms rid s = (None, s)" if "currentRequestId s \<noteq> Some rid" for s
    using that by (simp add: replyTimeout_def)
  have c: "currentRequestId st' = Some rid2" using eff by simp
  have other: "requests st' rid = requests st rid \<and> held st' rid = held st rid"
    if "rid \<noteq> rid2"
    using eff that by simp
  have fires: "fst (timer_fires ev ep rid st') = None
      \<and> requests (snd (timer_fires ev ep rid st')) rid
          = Some (r\<lparr>timeout := TTimer (t\<lparr>called := True\<rparr>)\<rparr>)
      \<and> held (snd (timer_fires ev ep rid st')) rid = held st rid
      \<and> logs (snd (timer_fires ev ep rid st')) = logs st'"
    if "rid \<noteq> rid2 \<and> requests st rid = Some r \<and> timeout r = TTimer t \<and> \<not> called t
        \<and> \<not> cleared t"
  proof -
    from that other have r': "requests st' rid = Some r" and h: "held st' rid = held st rid"
      by simp_all
    from that c have nc: "currentRequestId st' \<noteq> Some rid" by auto
    from that have "timeout r = TTimer t" "\<not> called t" "\<not> cleared t" by simp_all
    from timer_fires_stale [OF r' this nc, of ev ep] h show ?thesis by simp
  qed
  from stale c other fires show ?thesis by (simp add: rh)
qed

lemma two_arrivals_route:
  "route_handler example_env example_endpoint ''B'' pending_arrival arrived_state
     = (None, two_arrivals_state)"
  by (simp add: two_arrivals_state_def arrived_step prod_eq_iff)
     (simp add: arrived_state_def eval_defs)

theorem C5_witness:
  "''A'' \<noteq> ''B''
   \<and> currentRequestId arrived_state \<noteq> Some ''B''
   \<and> replyTimeout example_env ''hello'' 1000 ''B'' arrived_state = (None, arrived_state)
   \<and> requests arrived_state ''A''
       = Some \<lparr>is_done = False, timeout = TTimer \<lparr>called = False, cleared = False, delay = 1000\<rparr>\<rparr>
   \<and> currentRequestId two_arrivals_state = Some ''B''
   \<and> requests two_arrivals_state ''A'' = requests arrived_state ''A''
   \<and> fst (timer_fires example_env example_endpoint ''A'' two_arrivals_state) = None
   \<and> requests (snd (timer_fires example_env example_endpoint ''A'' two_arrivals_state)) ''A''
       = Some \<lparr>is_done = False, timeout = TTimer \<lparr>called = True, cleared = False, delay = 1000\<rparr>\<rparr>
   \<and> held (snd (timer_fires example_env example_endpoint ''A'' two_arrivals_state)) ''A''
       = held arrived_state ''A''
   \<and> logs (snd (timer_fires example_env example_endpoint ''A'' two_arrivals_state))
       = logs two_arrivals_state"
  using C5_stale_timer_is_suppressed [where st = arrived_state and rid = "''A''"
      and f = "''hello''" and ms = 1000 and ev = example_env and ep = example_endpoint
      and ?rid2.0 = "''B''" and a = pending_arrival
      and r = "\<lparr>is_done = False, timeout = TTimer \<lparr>called = False, cleared = False, delay = 1000\<rparr>\<rparr>"
      and t = "\<lparr>called = False, cleared = False, delay = 1000\<rparr>"]
    C5_stale_timer_is_suppressed [where st = arrived_state and rid = "''B''"
      and f = "''hello''" and ms = 1000 and ev = example_env]
    two_arrivals_route arrived_requests arrived_current
  by simp

text \<open>
  Request A is still pending when request B arrives. From then on \<^verbatim>\<open>_replyTimeout\<close> of A
  does nothing, and in the run where the timer of A runs and the handler of A completes
  afterwards, request A gets no response at all.
\<close>

theorem C5_counterexample:
  "\<not> request_done two_arrivals_state ''A''
   \<and> currentRequestId two_arrivals_state = Some ''B''
   \<and> replyTimeout example_env ''hello'' 1000 ''A'' two_arrivals_state
       = (None, two_arrivals_state)
   \<and> res_sent (held (snd (run example_env example_endpoint
        [Arrive ''A'' pending_arrival, Arrive ''B'' pending_arrival, TimerFires ''A'',
         Completion ''A'' None hi_result] initial)) ''A'') = 0"
proof -
  have c: "currentRequestId two_arrivals_state = Some ''B''"
    by (simp add: two_arrivals_state_def eval_defs)
  then have "replyTimeout example_env ''hello'' 1000 ''A'' two_arrivals_state
               = (None, two_arrivals_state)"
    by (simp add: replyTimeout_def)
  moreover have "\<not> request_done two_arrivals_state ''A''"
    by (simp add: two_arrivals_state_def eval_defs)
  moreover have "res_sent (held (snd (run example_env example_endpoint
        [Arrive ''A'' pending_arrival, Arrive ''B'' pending_arrival, TimerFires ''A'',
         Completion ''A'' None hi_result] initial)) ''A'') = 0"
    by (simp add: eval_defs)
  ultimately show ?thesis using c by simp
qed

section \<open>At most one response\<close>






section \<open>Response parameters\<close>

lemmas param_defs = process_responseParameter_def startsWith_def truthy_at_def
  literal_value_def quoted_def line_terminator_def toString_of_def spec_jsonPath_def
  toLowerCase_def header_falsy_def

text \<open>
  C6 (failing input). The two supported kinds of source set the header: the body path of
  the specification's example, and a quoted literal. A source that starts with
  \<open>integration.response\<close> and is not a body path logs the two warning lines and then raises
  the ReferenceError of \<^verbatim>\<open>logPluginIssue()\<close>: the callback is left, no header is set and
  no response is sent.
\<close>

theorem C6_unsupported_source_raises:
  "fst (process_responseParameter example_env ''A'' (JObj [(''url'', JStr ''http://x'')])
          ''method.response.header.Location'' ''integration.response.body.url'' arrived_state)
     = None
   \<and> res_headers (held (snd (process_responseParameter example_env ''A''
          (JObj [(''url'', JStr ''http://x'')])
          ''method.response.header.Location'' ''integration.response.body.url'' arrived_state))
        ''A'') ''location'' = Some ''http://x''
   \<and> res_headers (held (snd (process_responseParameter example_env ''A'' hi_result
          ''method.response.header.X-Tag'' (quote @ ''abc'' @ quote) arrived_state))
        ''A'') ''x-tag'' = Some ''abc''
   \<and> process_responseParameter example_env ''A'' hi_result
          ''method.response.header.X-Tag'' ''integration.response.header.Y'' arrived_state
       = (Some (ErrorObject ''ReferenceError'' ''logPluginIssue is not defined''
                  (Some (engine_stack example_env))),
          arrived_state\<lparr>logs := logs arrived_state @
            [Console [],
             SLog (parameter_warning ''method.response.header.X-Tag''
                     ''integration.response.header.Y''),
             SLog (right_hand_warning ''integration.response.header.Y'')]\<rparr>)
   \<and> fst (run example_env
            (parameters_endpoint
               [(''method.response.header.X-Tag'', ''integration.response.header.Y'')])
            [Arrive ''A'' pending_arrival, Completion ''A'' None hi_result] initial)
       = Some (ErrorObject ''ReferenceError'' ''logPluginIssue is not defined''
                 (Some (engine_stack example_env)))
   \<and> res_sent (held (snd (run example_env
            (parameters_endpoint
               [(''method.response.header.X-Tag'', ''integration.response.header.Y'')])
            [Arrive ''A'' pending_arrival, Completion ''A'' None hi_result] initial)) ''A'') = 0"
proof -
  have a: "fst (process_responseParameter example_env ''A'' (JObj [(''url'', JStr ''http://x'')])
          ''method.response.header.Location'' ''integration.response.body.url'' arrived_state)
     = None
   \<and> res_headers (held (snd (process_responseParameter example_env ''A''
          (JObj [(''url'', JStr ''http://x'')])
          ''method.response.header.Location'' ''integration.response.body.url'' arrived_state))
        ''A'') ''location'' = Some ''http://x''"
    by (simp add: param_defs example_env_def resp_defs)
  have b: "res_headers (held (snd (process_responseParameter example_env ''A'' hi_result
          ''method.response.header.X-Tag'' (quote @ ''abc'' @ quote) arrived_state))
        ''A'') ''x-tag'' = Some ''abc''"
    by (simp add: param_defs example_env_def resp_defs quote_def)
  have c: "process_responseParameter example_env ''A'' hi_result
          ''method.response.header.X-Tag'' ''integration.response.header.Y'' arrived_state
       = (Some (ErrorObject ''ReferenceError'' ''logPluginIssue is not defined''
                  (Some (engine_stack example_env))),
          arrived_state\<lparr>logs := logs arrived_state @
            [Console [],
             SLog (parameter_warning ''method.response.header.X-Tag''
                     ''integration.response.header.Y''),
             SLog (right_hand_warning ''integration.response.header.Y'')]\<rparr>)"
    by (simp add: param_defs logPluginIssue_error_def log_defs)
  have d: "fst (run example_env
            (parameters_endpoint
               [(''method.response.header.X-Tag'', ''integration.response.header.Y'')])
            [Arrive ''A'' pending_arrival, Completion ''A'' None hi_result] initial)
       = Some (ErrorObject ''ReferenceError'' ''logPluginIssue is not defined''
                 (Some (engine_stack example_env)))"
    by (simp add: eval_defs param_defs logPluginIssue_error_def)
  have e: "res_sent (held (snd (run example_env
            (parameters_endpoint
               [(''method.response.header.X-Tag'', ''integration.response.header.Y'')])
            [Arrive ''A'' pending_arrival, Completion ''A'' None hi_result] initial)) ''A'') = 0"
    by (simp add: eval_defs param_defs logPluginIssue_error_def)
  from a b c d e show ?thesis by blast
qed
section \<open>Headers set twice\<close>

lemma response_header_override:
  "res_headers (held (response_header rid name v True st) rid) (toLowerCase name) = Some v"
  by (simp add: resp_defs)

lemma response_header_keep:
  "\<not> header_falsy (res_headers (held st rid) (toLowerCase name)) \<Longrightarrow>
   res_headers (held (response_header rid name v False st) rid) (toLowerCase name)
     = res_headers (held st rid) (toLowerCase name)"
  by (simp add: resp_defs)

lemma process_responseParameter_sets:
  assumes "startsWith key ''method.response.header''"
    and "truthy_at (split_on CHR ''.'' key) 3"
    and "fst (process_responseParameter ev rid result key v st) = None"
  shows "\<exists>w. \<forall>s. process_responseParameter ev rid result key v s
           = (None, response_header rid (join ''.'' (drop 3 (split_on CHR ''.'' key))) w True s)"
  using assms
  by (auto simp: process_responseParameter_def Let_def split: if_splits sum.splits)

text \<open>
  C7 (as amended). An entry of the pass that sets a header stores its value whatever an
  earlier entry stored under that name: the call is \<^verbatim>\<open>response.header(name, value)\<close> with
  Hapi's default \<^verbatim>\<open>override\<close>, so the stored value is the same from every earlier state.
  Only the Content-Type assignment after the pass (\<^verbatim>\<open>override: false\<close>) keeps a non-empty
  value that is already there.
\<close>

theorem C7_later_entry_overwrites:
  "(startsWith key ''method.response.header'' \<and> truthy_at (split_on CHR ''.'' key) 3
      \<and> \<not> startsWith v ''integration.response'' \<longrightarrow>
        fst (process_responseParameter ev rid result key v st) = None
      \<and> res_headers (held (snd (process_responseParameter ev rid result key v st)) rid)
           (toLowerCase (join ''.'' (drop 3 (split_on CHR ''.'' key))))
          = Some (literal_value v))
   \<and> (startsWith key ''method.response.header'' \<and> truthy_at (split_on CHR ''.'' key) 3
      \<and> fst (process_responseParameter ev rid result key v st) = None \<longrightarrow>
        res_headers (held (snd (process_responseParameter ev rid result key v st)) rid)
           (toLowerCase (join ''.'' (drop 3 (split_on CHR ''.'' key)))) \<noteq> None
      \<and> res_headers (held (snd (process_responseParameter ev rid result key v st)) rid)
           (toLowerCase (join ''.'' (drop 3 (split_on CHR ''.'' key))))
          = res_headers (held (snd (process_responseParameter ev rid result key v st2)) rid)
              (toLowerCase (join ''.'' (drop 3 (split_on CHR ''.'' key)))))
   \<and> (\<not> header_falsy (res_headers (held st rid) ''content-type'') \<longrightarrow>
        res_headers (held (configure_response ev rid err n ch ct res st) rid) ''content-type''
          = res_headers (held st rid) ''content-type'')"
proof (intro conjI impI)
  assume a: "startsWith key ''method.response.header'' \<and> truthy_at (split_on CHR ''.'' key) 3
      \<and> \<not> startsWith v ''integration.response''"
  then have p: "process_responseParameter ev rid result key v st
      = (None, response_header rid (join ''.'' (drop 3 (split_on CHR ''.'' key)))
                 (literal_value v) True st)"
    by (simp add: process_responseParameter_def Let_def)
  show "fst (process_responseParameter ev rid result key v st) = None" by (simp add: p)
  show "res_headers (held (snd (process_responseParameter ev rid result key v st)) rid)
           (toLowerCase (join ''.'' (drop 3 (split_on CHR ''.'' key))))
          = Some (literal_value v)"
    by (simp add: p response_header_override)
next
  assume a: "startsWith key ''method.response.header'' \<and> truthy_at (split_on CHR ''.'' key) 3
      \<and> fst (process_responseParameter ev rid result key v st) = None"
  let ?h = "join ''.'' (drop 3 (split_on CHR ''.'' key))"
  from a process_responseParameter_sets [of key ev rid result v st]
  obtain w where w: "\<And>s. process_responseParameter ev rid result key v s
           = (None, response_header rid ?h w True s)"
    by blast
  show "res_headers (held (snd (process_responseParameter ev rid result key v st)) rid)
           (toLowerCase ?h) \<noteq> None"
    by (simp add: w response_header_override)
  show "res_headers (held (snd (process_responseParameter ev rid result key v st)) rid)
           (toLowerCase ?h)
          = res_headers (held (snd (process_responseParameter ev rid result key v st2)) rid)
              (toLowerCase ?h)"
    by (simp add: w response_header_override)
next
  assume "\<not> header_falsy (res_headers (held st rid) ''content-type'')"
  then show "res_headers (held (configure_response ev rid err n ch ct res st) rid) ''content-type''
          = res_headers (held st rid) ''content-type''"
    by (simp add: configure_response_def Let_def resp_defs log_defs toLowerCase_def)
qed

theorem C7_witness:
  "startsWith ''method.response.header.X-Tag'' ''method.response.header''
   \<and> truthy_at (split_on CHR ''.'' ''method.response.header.X-Tag'') 3
   \<and> \<not> startsWith (quote @ ''second'' @ quote) ''integration.response''
   \<and> res_headers (held (response_header ''A'' ''X-Tag'' ''first'' True arrived_state) ''A'')
        ''x-tag'' = Some ''first''
   \<and> res_headers (held (snd (process_responseParameter example_env ''A'' hi_result
          ''method.response.header.X-Tag'' (quote @ ''second'' @ quote)
          (response_header ''A'' ''X-Tag'' ''first'' True arrived_state))) ''A'') ''x-tag''
       = Some ''second''
   \<and> \<not> header_falsy (res_headers (held (response_header ''A'' ''Content-Type'' ''text/plain''
          True arrived_state) ''A'') ''content-type'')
   \<and> res_headers (held (configure_response example_env ''A'' None ''default'' (Some plain_rule)
          ''application/json'' hi_result
          (response_header ''A'' ''Content-Type'' ''text/plain'' True arrived_state)) ''A'')
        ''content-type'' = Some ''text/plain''"
  using C7_later_entry_overwrites [where key = "''method.response.header.X-Tag''"
      and v = "quote @ ''second'' @ quote" and ev = example_env and rid = "''A''"
      and result = hi_result
      and st = "response_header ''A'' ''X-Tag'' ''first'' True arrived_state"
      and ?st2.0 = arrived_state]
    C7_later_entry_overwrites [where
      st = "response_header ''A'' ''Content-Type'' ''text/plain'' True arrived_state"
      and ev = example_env and rid = "''A''" and err = None and n = "''default''"
      and ch = "Some plain_rule" and ct = "''application/json''" and res = hi_result]
  by (simp add: param_defs quote_def resp_defs)

text \<open>
  Two entries name the header X-Tag (one through a key that only starts with
  \<open>method.response.header\<close>): after the pass the header holds the value of the later entry.
\<close>

theorem C7_counterexample:
  "js_entries [(''method.response.header.X-Tag'', quote @ ''first'' @ quote),
               (''method.response.headers.X-Tag'', quote @ ''second'' @ quote)]
     = [(''method.response.header.X-Tag'', quote @ ''first'' @ quote),
        (''method.response.headers.X-Tag'', quote @ ''second'' @ quote)]
   \<and> res_headers (held (snd (process_responseParameter example_env ''A'' hi_result
          ''method.response.header.X-Tag'' (quote @ ''first'' @ quote) arrived_state)) ''A'')
        ''x-tag'' = Some ''first''
   \<and> fst (process_responseParameters example_env ''A'' hi_result
          [(''method.response.header.X-Tag'', quote @ ''first'' @ quote),
           (''method.response.headers.X-Tag'', quote @ ''second'' @ quote)] arrived_state) = None
   \<and> res_headers (held (snd (process_responseParameters example_env ''A'' hi_result
          [(''method.response.header.X-Tag'', quote @ ''first'' @ quote),
           (''method.response.headers.X-Tag'', quote @ ''second'' @ quote)] arrived_state)) ''A'')
        ''x-tag'' = Some ''second''"
  by (simp add: param_defs quote_def resp_defs entry_defs)
section \<open>Response templates\<close>

lemma content_type_header:
  "header_falsy (res_headers (held st rid) ''content-type'') \<Longrightarrow>
   res_headers (held (configure_response ev rid err n ch ct res st) rid) ''content-type''
     = Some ct"
  by (simp add: configure_response_def Let_def resp_defs log_defs toLowerCase_def)

lemma configure_response_source:
  "res_source (held (configure_response ev rid err n ch ct res st) rid) = res"
  by (simp add: configure_response_def Let_def resp_defs log_defs)

text \<open>
  C8 (as amended). Without templates the result and the default content type stay. With a
  non-empty \<^verbatim>\<open>responseTemplates\<close> map the first key in enumeration order is selected and
  becomes the content type in every case; the result is replaced by the rendered value when
  the template is not empty and renders, and stays the raw result when the template is
  empty or when rendering raises (the error is then logged). The content type is sent as
  the Content-Type header unless a response parameter has set that header.
\<close>

theorem C8_response_templates:
  "(template_entries ch = [] \<longrightarrow>
      process_responseTemplates ev ep rq ch result st = (defaultContentType, result, st))
   \<and> (template_entries ch = (name, t) # rest \<longrightarrow>
        fst (process_responseTemplates ev ep rq ch result st) = name
      \<and> (t = [] \<longrightarrow> process_responseTemplates ev ep rq ch result st = (name, result, st))
      \<and> (t \<noteq> [] \<and> render_response ev rq t result = Inr rendered \<longrightarrow>
            process_responseTemplates ev ep rq ch result st = (name, rendered, st))
      \<and> (t \<noteq> [] \<and> render_response ev rq t result = Inl error \<longrightarrow>
            fst (snd (process_responseTemplates ev ep rq ch result st)) = result
          \<and> (\<exists>e. logs (snd (snd (process_responseTemplates ev ep rq ch result st)))
                  = logs st @ [SLog (template_error_message name (funName ep)), e])
          \<and> held (snd (snd (process_responseTemplates ev ep rq ch result st))) = held st))
   \<and> (responseTemplates rule = Some ts \<and> (\<forall>k \<in> set (map fst ts). \<not> is_array_index k) \<longrightarrow>
        template_entries (Some rule) = ts)
   \<and> res_source (held (configure_response ev rid err n ch ct res st) rid) = res
   \<and> (header_falsy (res_headers (held st rid) ''content-type'') \<longrightarrow>
        res_headers (held (configure_response ev rid err n ch ct res st) rid) ''content-type''
          = Some ct)"
proof (intro conjI impI)
  assume "template_entries ch = []"
  then show "process_responseTemplates ev ep rq ch result st = (defaultContentType, result, st)"
    by (simp add: process_responseTemplates_def)
next
  assume e: "template_entries ch = (name, t) # rest"
  show "fst (process_responseTemplates ev ep rq ch result st) = name"
    by (simp add: process_responseTemplates_def e split: sum.splits)
  show "process_responseTemplates ev ep rq ch result st = (name, result, st)" if "t = []"
    using that by (simp add: process_responseTemplates_def e)
  show "process_responseTemplates ev ep rq ch result st = (name, rendered, st)"
    if "t \<noteq> [] \<and> render_response ev rq t result = Inr rendered"
    using that by (simp add: process_responseTemplates_def e)
  {
    assume r: "t \<noteq> [] \<and> render_response ev rq t result = Inl error"
    show "fst (snd (process_responseTemplates ev ep rq ch result st)) = result"
      using r by (simp add: process_responseTemplates_def e)
    show "\<exists>e. logs (snd (snd (process_responseTemplates ev ep rq ch result st)))
                  = logs st @ [SLog (template_error_message name (funName ep)), e]"
      using r by (simp add: process_responseTemplates_def e log_defs)
    show "held (snd (snd (process_responseTemplates ev ep rq ch result st))) = held st"
      using r by (simp add: process_responseTemplates_def e log_defs)
  }
next
  assume "responseTemplates rule = Some ts \<and> (\<forall>k \<in> set (map fst ts). \<not> is_array_index k)"
  then show "template_entries (Some rule) = ts"
    by (auto simp: template_entries_def intro: js_entries_declared)
next
  show "res_source (held (configure_response ev rid err n ch ct res st) rid) = res"
    by (rule configure_response_source)
next
  assume "header_falsy (res_headers (held st rid) ''content-type'')"
  then show "res_headers (held (configure_response ev rid err n ch ct res st) rid)
               ''content-type'' = Some ct"
    by (rule content_type_header)
qed

lemmas template_defs = template_entries_def process_responseTemplates_def

theorem C8_witness:
  "template_entries (Some (plain_rule\<lparr>responseTemplates :=
        Some [(''text/html'', ''<b>hi</b>''), (''application/json'', ''{}'')]\<rparr>))
     = (''text/html'', ''<b>hi</b>'') # [(''application/json'', ''{}'')]
   \<and> ''<b>hi</b>'' \<noteq> []
   \<and> render_response example_env example_request ''<b>hi</b>'' hi_result = Inr (JStr ''<b>hi</b>'')
   \<and> process_responseTemplates example_env example_endpoint example_request
        (Some (plain_rule\<lparr>responseTemplates :=
           Some [(''text/html'', ''<b>hi</b>''), (''application/json'', ''{}'')]\<rparr>))
        hi_result arrived_state
       = (''text/html'', JStr ''<b>hi</b>'', arrived_state)
   \<and> render_response (example_env\<lparr>render_response := (\<lambda>rq t v. Inl (StringValue ''bad''))\<rparr>)
        example_request ''<b>hi</b>'' hi_result = Inl (StringValue ''bad'')
   \<and> fst (snd (process_responseTemplates
        (example_env\<lparr>render_response := (\<lambda>rq t v. Inl (StringValue ''bad''))\<rparr>)
        example_endpoint example_request
        (Some (plain_rule\<lparr>responseTemplates :=
           Some [(''text/html'', ''<b>hi</b>''), (''application/json'', ''{}'')]\<rparr>))
        hi_result arrived_state)) = hi_result
   \<and> header_falsy (res_headers (held arrived_state ''A'') ''content-type'')
   \<and> res_headers (held (configure_response example_env ''A'' None ''default''
          (Some (plain_rule\<lparr>responseTemplates :=
             Some [(''text/html'', ''<b>hi</b>''), (''application/json'', ''{}'')]\<rparr>))
          ''text/html'' (JStr ''<b>hi</b>'') arrived_state) ''A'')
        ''content-type'' = Some ''text/html''
   \<and> template_entries (Some plain_rule) = []
   \<and> process_responseTemplates example_env example_endpoint example_request (Some plain_rule)
        hi_result arrived_state
       = (''application/json'', hi_result, arrived_state)
   \<and> template_entries (Some (plain_rule\<lparr>responseTemplates := Some [(''text/plain'', [])]\<rparr>))
       = (''text/plain'', []) # []
   \<and> process_responseTemplates example_env example_endpoint example_request
        (Some (plain_rule\<lparr>responseTemplates := Some [(''text/plain'', [])]\<rparr>))
        hi_result arrived_state
       = (''text/plain'', hi_result, arrived_state)"
proof -
  let ?ts = "[(''text/html'', ''<b>hi</b>''), (''application/json'', ''{}'')]"
  let ?ch = "Some (plain_rule\<lparr>responseTemplates := Some ?ts\<rparr>)"
  let ?bad = "example_env\<lparr>render_response := (\<lambda>rq t v. Inl (StringValue ''bad''))\<rparr>"
  have plain: "\<forall>k \<in> set (map fst ?ts). \<not> is_array_index k" by (simp add: entry_defs)
  have te: "template_entries ?ch = (''text/html'', ''<b>hi</b>'') # [(''application/json'', ''{}'')]"
    using C8_response_templates [where rule = "plain_rule\<lparr>responseTemplates := Some ?ts\<rparr>"
        and ts = ?ts] plain
    by simp
  have hf: "header_falsy (res_headers (held arrived_state ''A'') ''content-type'')"
    by (simp add: arrived_state_def eval_defs header_falsy_def)
  have r1: "render_response example_env example_request ''<b>hi</b>'' hi_result
              = Inr (JStr ''<b>hi</b>'')"
    by (simp add: example_env_def)
  have a: "process_responseTemplates example_env example_endpoint example_request ?ch
             hi_result arrived_state = (''text/html'', JStr ''<b>hi</b>'', arrived_state)
         \<and> res_headers (held (configure_response example_env ''A'' None ''default'' ?ch
              ''text/html'' (JStr ''<b>hi</b>'') arrived_state) ''A'') ''content-type''
             = Some ''text/html''"
    using C8_response_templates [where ch = ?ch
        and name = "''text/html''" and t = "''<b>hi</b>''"
        and rest = "[(''application/json'', ''{}'')]"
        and ev = example_env and ep = example_endpoint and rq = example_request
        and result = hi_result and st = arrived_state and rendered = "JStr ''<b>hi</b>''"
        and rid = "''A''" and ct = "''text/html''" and res = "JStr ''<b>hi</b>''"
        and err = None and n = "''default''"] te hf r1
    by simp
  have b: "fst (snd (process_responseTemplates ?bad example_endpoint example_request ?ch
             hi_result arrived_state)) = hi_result"
    using C8_response_templates [where ch = ?ch
        and name = "''text/html''" and t = "''<b>hi</b>''"
        and rest = "[(''application/json'', ''{}'')]"
        and ev = ?bad and ep = example_endpoint and rq = example_request
        and result = hi_result and st = arrived_state and error = "StringValue ''bad''"] te
    by simp
  have n0: "template_entries (Some plain_rule) = []"
    by (simp add: template_entries_def plain_rule_def)
  have c: "process_responseTemplates example_env example_endpoint example_request
             (Some plain_rule) hi_result arrived_state
           = (''application/json'', hi_result, arrived_state)"
    using C8_response_templates [where ch = "Some plain_rule" and ev = example_env
        and ep = example_endpoint and rq = example_request and result = hi_result
        and st = arrived_state] n0
    by (simp add: defaultContentType_def)
  have e0: "template_entries (Some (plain_rule\<lparr>responseTemplates := Some [(''text/plain'', [])]\<rparr>))
       = (''text/plain'', []) # []"
    by (simp add: template_entries_def entry_defs)
  have d: "process_responseTemplates example_env example_endpoint example_request
        (Some (plain_rule\<lparr>responseTemplates := Some [(''text/plain'', [])]\<rparr>))
        hi_result arrived_state
       = (''text/plain'', hi_result, arrived_state)"
    using C8_response_templates [where
        ch = "Some (plain_rule\<lparr>responseTemplates := Some [(''text/plain'', [])]\<rparr>)"
        and name = "''text/plain''" and t = "[]" and rest = "[]"
        and ev = example_env and ep = example_endpoint and rq = example_request
        and result = hi_result and st = arrived_state] e0
    by simp
  from te hf r1 a b n0 c e0 d show ?thesis by simp
qed

text \<open>
  The first template is empty: the result stays the raw result, but the content type is
  the template's key and not the default one, also in the response that is sent.
\<close>

theorem C8_counterexample:
  "process_responseTemplates example_env example_endpoint example_request
      (Some (plain_rule\<lparr>responseTemplates := Some [(''text/html'', [])]\<rparr>))
      hi_result arrived_state
     = (''text/html'', hi_result, arrived_state)
   \<and> ''text/html'' \<noteq> defaultContentType
   \<and> res_source (held (snd (run example_env (templates_endpoint [(''text/html'', [])])
        [Arrive ''A'' pending_arrival, Completion ''A'' None hi_result] initial)) ''A'')
       = hi_result
   \<and> res_headers (held (snd (run example_env (templates_endpoint [(''text/html'', [])])
        [Arrive ''A'' pending_arrival, Completion ''A'' None hi_result] initial)) ''A'')
        ''content-type'' = Some ''text/html''"
proof -
  have a: "process_responseTemplates example_env example_endpoint example_request
      (Some (plain_rule\<lparr>responseTemplates := Some [(''text/html'', [])]\<rparr>))
      hi_result arrived_state
     = (''text/html'', hi_result, arrived_state)"
    by (simp add: template_defs entry_defs plain_rule_def)
  have b: "''text/html'' \<noteq> defaultContentType" by (simp add: defaultContentType_def)
  have c: "res_source (held (snd (run example_env (templates_endpoint [(''text/html'', [])])
        [Arrive ''A'' pending_arrival, Completion ''A'' None hi_result] initial)) ''A'')
       = hi_result
   \<and> res_headers (held (snd (run example_env (templates_endpoint [(''text/html'', [])])
        [Arrive ''A'' pending_arrival, Completion ''A'' None hi_result] initial)) ''A'')
        ''content-type'' = Some ''text/html''"
    by (simp add: eval_defs toLowerCase_def header_falsy_def process_responseParameters.simps)
  from a b c show ?thesis by simp
qed

end
